theory Spec2Isabelle
  imports Complex_Main
begin

section \<open>ocean.js: the Assets submodule (src/ocean/Assets.ts)\<close>

text \<open>
  A shallow embedding of the class \<open>Assets\<close>. The methods are asynchronous
  and talk to the ledger (\<open>datatokens\<close>), the provider, the metadata store and
  the signing utility through \<open>this.ocean\<close>. In the model
  \<^item> a JavaScript value that may be \<open>undefined\<close> or \<open>null\<close> is an \<open>option\<close>;
  \<^item> a promise settles to \<open>Inr v\<close> (resolved with \<open>v\<close>) or \<open>Inl e\<close> (rejected:
    an exception was thrown);
  \<^item> the collaborators are the fields of a record \<open>ocean\<close> over a state \<open>'s\<close>
    of the outside world: a query reads the state, an effect also returns the next one;
  \<^item> every collaborator call, every progress step given to the observer and every
    logger call is appended to a trace, so that "no payment call was made" is a statement
    about the trace.

  The methods embedded are \<open>create\<close>, \<open>resolve\<close>, \<open>updateComputePrivacy\<close>,
  \<open>creator\<close>, \<open>getServiceByType\<close>, \<open>getServiceByIndex\<close>, \<open>initialize\<close>,
  \<open>order\<close> and \<open>download\<close>. Values are taken at their TypeScript types: an index
  is an integer, a balance a decimal number. The amount of a quote has no type in the
  source; it is kept as the number or text that the provider sent.
\<close>

subsection \<open>The document model (src/ddo)\<close>

record ddo_file =
  url :: "string option"
  findex :: "int option"
  contentType :: string

record curation =
  rating :: int
  numVotes :: int

record privacy =
  allowRawAlgorithm :: bool
  allowNetworkAccess :: bool
  trustedAlgorithms :: "string list"

text \<open>\<open>attributes.main\<close> of a service: the fields that Assets.ts reads or writes.\<close>

record main_attrs =
  name :: "string option"
  files :: "ddo_file list"
  cost :: "string option"
  timeout :: "int option"
  privacy :: "privacy option"

text \<open>
  \<open>Metadata\<close> and the \<open>attributes\<close> of a service have the same shape;
  \<open>encryptedFiles\<close> is absent in the metadata a caller passes.
\<close>

record attributes =
  main :: main_attrs
  curation :: "curation option"
  additionalInformation :: "string option"
  encryptedFiles :: "string option"

text \<open>
  A service descriptor. The type is kept as the string the source compares; the
  index is absent on the default metadata entry that \<open>create\<close> builds, until the
  final \<open>map\<close> writes it.
\<close>

record service =
  stype :: string
  index :: "int option"
  serviceEndpoint :: "string option"
  attributes :: attributes

record proof_record =
  checksum :: string
  creator :: string
  signatureValue :: string

record authentication =
  atype :: string
  apublicKey :: string

record publicKey =
  kid :: string
  ktype :: string
  kowner :: string

record ddo =
  did_id :: string
  dataToken :: string
  authentication :: "authentication list"
  publicKey :: "publicKey list"
  services :: "service list"
  ddo_proof :: "proof_record option"

subsection \<open>Array methods of JavaScript used by the source\<close>

text \<open>\<open>Array.prototype.findIndex\<close>: the first position whose element satisfies the
  predicate, \<open>-1\<close> when there is none.\<close>

fun findIndex :: "('a \<Rightarrow> bool) \<Rightarrow> 'a list \<Rightarrow> int" where
  "findIndex P [] = - 1"
| "findIndex P (x # xs) =
     (if P x then 0 else (let r = findIndex P xs in if r = - 1 then - 1 else r + 1))"

text \<open>\<open>Array.prototype.filter\<close> with the callback's three arguments
  \<open>(element, i, list)\<close>; \<open>filter_from k\<close> is the loop from position \<open>k\<close> on.\<close>

fun filter_from :: "nat \<Rightarrow> ('a \<Rightarrow> int \<Rightarrow> 'a list \<Rightarrow> bool) \<Rightarrow> 'a list \<Rightarrow> 'a list \<Rightarrow> 'a list" where
  "filter_from k cb l [] = []"
| "filter_from k cb l (x # xs) =
     (if cb x (int k) l then x # filter_from (Suc k) cb l xs else filter_from (Suc k) cb l xs)"

definition filter_js :: "('a \<Rightarrow> int \<Rightarrow> 'a list \<Rightarrow> bool) \<Rightarrow> 'a list \<Rightarrow> 'a list" where
  "filter_js cb l = filter_from 0 cb l l"

subsection \<open>The Service Document Builder (Assets.create, lines 138-173)\<close>

text \<open>
  \<^verbatim>\<open>.reverse().filter(({ type }, i, list) => list.findIndex(({ type: t }) => t === type) === i).reverse()\<close>
\<close>

definition remove_duplications :: "service list \<Rightarrow> service list" where
  "remove_duplications l =
     rev (filter_js (\<lambda>s i list. findIndex (\<lambda>s'. stype s' = stype s) list = i) (rev l))"

text \<open>\<^verbatim>\<open>.map((_) => ({ ..._, index: indexCount++ }))\<close>, the counter passed along.\<close>

fun adding_index :: "int \<Rightarrow> service list \<Rightarrow> service list" where
  "adding_index indexCount [] = []"
| "adding_index indexCount (s # l) = s\<lparr>index := Some indexCount\<rparr> # adding_index (indexCount + 1) l"

text \<open>The default metadata entry: \<open>curation\<close> defaults, then the caller's metadata,
  then \<open>encryptedFiles\<close>, then \<open>main\<close> with every file's \<open>index\<close> set and \<open>url\<close> removed.\<close>

fun clean_files :: "int \<Rightarrow> ddo_file list \<Rightarrow> ddo_file list" where
  "clean_files i [] = []"
| "clean_files i (f # fs) = f\<lparr>findex := Some i, url := None\<rparr> # clean_files (i + 1) fs"

definition metadata_service :: "attributes \<Rightarrow> string option \<Rightarrow> service" where
  "metadata_service metadata encrypted =
     \<lparr> stype = ''metadata'',
       index = None,
       serviceEndpoint = None,
       attributes = metadata
         \<lparr> curation := (case curation metadata of
                          None \<Rightarrow> Some \<lparr> rating = 0, numVotes = 0 \<rparr>
                        | Some c \<Rightarrow> Some c),
           encryptedFiles := encrypted,
           main := (main metadata)\<lparr> files := clean_files 0 (files (main metadata)) \<rparr> \<rparr> \<rparr>"

definition build_services :: "service \<Rightarrow> service list \<Rightarrow> service list" where
  "build_services defaultMetadataService callerServices =
     adding_index 0 (remove_duplications (defaultMetadataService # callerServices))"

subsection \<open>Exceptions, events and the outside world\<close>

datatype exn =
    TypeError
  | Error string
  | CollaboratorError string

text \<open>The error that \<open>download\<close> throws when the access service has no endpoint.\<close>

definition MissingEndpoint :: exn where
  "MissingEndpoint = Error ''Consume asset failed, service definition is missing the `serviceEndpoint`.''"

datatype CreateProgressStep =
    CreatingDataToken
  | DataTokenCreated
  | EncryptingFiles
  | FilesEncrypted
  | GeneratingProof
  | ProofGenerated
  | StoringDdo
  | DdoStored

record account =
  acc_id :: string
  acc_password :: "string option"

record jsonBlob =
  blob_t :: int
  blob_url :: string

text \<open>The amount of a quote as \<open>JSON.parse\<close> gives it, a number or a text: the source
  takes it untyped and prints it with \<open>String\<close>. A number is the rational it denotes.\<close>

datatype json_amount = JNumber rat | JString string

record providerData =
  pd_dataToken :: string
  numTokens :: json_amount

record receipt =
  transactionHash :: string

text \<open>The logger and console calls; the message texts are not modelled.\<close>

datatype logcall = Logger_log | Logger_warn | Logger_error | Console_error | Console_log

text \<open>One constructor for each collaborator operation, with the arguments of the call.
  A balance and the amount paid are numbers: the decimal texts of the source are read as
  their values. The amount of a quote is passed on as the provider gave it.\<close>

datatype call =
    GetURI
  | RetrieveDDO string
  | DatatokensCreate jsonBlob string "string option" "string option" "string option"
  | ProviderEncrypt string "ddo_file list" account
  | SignText string string "string option"
  | Publish string ddo string
  | Update string ddo string
  | VerifyText string string
  | ProviderInitialize string int string string
  | GetPreviousValidOrders string json_amount string "int option" "int option" string
  | Balance string string
  | StartOrder string rat string "int option" "string option" string
  | ProviderDownload string string string string string "string option" account "ddo_file list"

datatype event =
    Progress CreateProgressStep
  | Log logcall
  | Call call

text \<open>
  \<open>this.ocean\<close>, \<open>this.web3\<close> and the helpers of the repository that Assets.ts imports
  and src/ does not hold, over the state \<open>'s\<close> of the outside world. A query answers
  from the state; an effect (\<open>datatokens.create\<close>, \<open>publish\<close>, \<open>update\<close>,
  \<open>startOrder\<close>, \<open>download\<close>) also gives the next state. Each may throw.
  The last two fields are not collaborators: \<open>Number_toString\<close> is how the language
  prints a number (the digits of an integer below \<open>10^21\<close>, a fraction or exponent form
  otherwise), and \<open>fromWei\<close> is \<open>web3.utils.fromWei\<close> with the default unit, which
  gives the decimal value of a text of wei and throws on a text it does not read as an
  integer. Both are left open, so that nothing below rests on how a text is printed or
  read.
\<close>

record 's ocean =
  metadatastore_getURI :: "'s \<Rightarrow> exn + string"
  retrieveDDO :: "'s \<Rightarrow> string \<Rightarrow> exn + ddo"
  datatokens_create :: "jsonBlob \<Rightarrow> string \<Rightarrow> string option \<Rightarrow> string option \<Rightarrow> string option
                        \<Rightarrow> 's \<Rightarrow> (exn + string option) \<times> 's"
  provider_encrypt :: "'s \<Rightarrow> string \<Rightarrow> ddo_file list \<Rightarrow> account \<Rightarrow> exn + string option"
  signText :: "'s \<Rightarrow> string \<Rightarrow> string \<Rightarrow> string option \<Rightarrow> exn + string"
  verifyText :: "'s \<Rightarrow> string \<Rightarrow> string \<Rightarrow> exn + string"
  metadata_publish :: "string \<Rightarrow> ddo \<Rightarrow> string \<Rightarrow> 's \<Rightarrow> (exn + bool) \<times> 's"
  metadata_update :: "string \<Rightarrow> ddo \<Rightarrow> string \<Rightarrow> 's \<Rightarrow> (exn + bool) \<times> 's"
  provider_initialize :: "'s \<Rightarrow> string \<Rightarrow> int \<Rightarrow> string \<Rightarrow> string \<Rightarrow> exn + string option"
  JSON_parse :: "string \<Rightarrow> exn + providerData option"
  getPreviousValidOrders :: "'s \<Rightarrow> string \<Rightarrow> json_amount \<Rightarrow> string \<Rightarrow> int option \<Rightarrow> int option
                             \<Rightarrow> string \<Rightarrow> exn + string option"
  datatokens_balance :: "'s \<Rightarrow> string \<Rightarrow> string \<Rightarrow> exn + rat"
  startOrder :: "string \<Rightarrow> rat \<Rightarrow> string \<Rightarrow> int option \<Rightarrow> string option \<Rightarrow> string
                 \<Rightarrow> 's \<Rightarrow> (exn + receipt option) \<times> 's"
  provider_download :: "string \<Rightarrow> string \<Rightarrow> string \<Rightarrow> string \<Rightarrow> string \<Rightarrow> string option \<Rightarrow> account
                        \<Rightarrow> ddo_file list \<Rightarrow> 's \<Rightarrow> (exn + unit) \<times> 's"
  DID_getId :: "string \<Rightarrow> string"
  DID_getDid :: "string \<Rightarrow> string"
  didZeroX :: "string \<Rightarrow> string"
  getChecksum :: "ddo \<Rightarrow> string"
  shortId :: "ddo \<Rightarrow> string"
  findServiceByType :: "ddo \<Rightarrow> string \<Rightarrow> service option"
  checkAddressChecksum :: "string \<Rightarrow> bool"
  Number_toString :: "rat \<Rightarrow> string"
  fromWei :: "string \<Rightarrow> exn + rat"

subsection \<open>Asynchronous code: state, trace and exceptions\<close>

type_synonym ('s, 'a) prog = "'s \<times> event list \<Rightarrow> (exn + 'a) \<times> ('s \<times> event list)"

definition ret :: "'a \<Rightarrow> ('s, 'a) prog" where
  "ret x \<sigma> = (Inr x, \<sigma>)"

definition throw :: "exn \<Rightarrow> ('s, 'a) prog" where
  "throw e \<sigma> = (Inl e, \<sigma>)"

definition bind_io :: "('s, 'a) prog \<Rightarrow> ('a \<Rightarrow> ('s, 'b) prog) \<Rightarrow> ('s, 'b) prog" where
  "bind_io m f \<sigma> = (case m \<sigma> of (Inl e, \<sigma>') \<Rightarrow> (Inl e, \<sigma>') | (Inr x, \<sigma>') \<Rightarrow> f x \<sigma>')"

definition try_catch :: "('s, 'a) prog \<Rightarrow> (exn \<Rightarrow> ('s, 'a) prog) \<Rightarrow> ('s, 'a) prog" where
  "try_catch m h \<sigma> = (case m \<sigma> of (Inl e, \<sigma>') \<Rightarrow> h e \<sigma>' | (Inr x, \<sigma>') \<Rightarrow> (Inr x, \<sigma>'))"

definition emit :: "event \<Rightarrow> ('s, unit) prog" where
  "emit ev \<sigma> = (Inr (), (fst \<sigma>, snd \<sigma> @ [ev]))"

definition query :: "call \<Rightarrow> ('s \<Rightarrow> exn + 'a) \<Rightarrow> ('s, 'a) prog" where
  "query c q \<sigma> = (q (fst \<sigma>), (fst \<sigma>, snd \<sigma> @ [Call c]))"

definition effect :: "call \<Rightarrow> ('s \<Rightarrow> (exn + 'a) \<times> 's) \<Rightarrow> ('s, 'a) prog" where
  "effect c f \<sigma> = (case f (fst \<sigma>) of (r, s') \<Rightarrow> (r, (s', snd \<sigma> @ [Call c])))"

subsection \<open>Values of JavaScript and of web3-utils\<close>

text \<open>Truthiness of a string that may be \<open>undefined\<close>: the empty string is falsy.\<close>

definition truthy :: "string option \<Rightarrow> bool" where
  "truthy v = (case v of None \<Rightarrow> False | Some s \<Rightarrow> s \<noteq> [])"

definition nth_js :: "'a list \<Rightarrow> int \<Rightarrow> 'a option" where
  "nth_js xs i = (if 0 \<le> i \<and> i < int (length xs) then Some (xs ! nat i) else None)"

definition lower_char :: "char \<Rightarrow> char" where
  "lower_char c =
     (case map_of (zip ''ABCDEFGHIJKLMNOPQRSTUVWXYZ'' ''abcdefghijklmnopqrstuvwxyz'') c of
        Some l \<Rightarrow> l
      | None \<Rightarrow> c)"

definition toLowerCase :: "string \<Rightarrow> string" where
  "toLowerCase s = map lower_char s"

fun digits :: "nat \<Rightarrow> string" where
  "digits n = (if n < 10 then [''0123456789'' ! n]
               else digits (n div 10) @ [''0123456789'' ! (n mod 10)])"

definition toString :: "int \<Rightarrow> string" where
  "toString i = (if i < 0 then CHR ''-'' # digits (nat (- i)) else digits (nat i))"

text \<open>\<open>String(v)\<close> on the amount of a quote: a text is itself, a number is printed.\<close>

definition String_js :: "'s ocean \<Rightarrow> json_amount \<Rightarrow> string" where
  "String_js oc v = (case v of JString t \<Rightarrow> t | JNumber q \<Rightarrow> Number_toString oc q)"

text \<open>
  \<open>isAddress\<close> of web3-utils: the text, after an optional \<open>0x\<close>, is 40 hexadecimal
  digits; a text of mixed case must also pass the checksum, which hashes and is a
  parameter. \<open>undefined\<close> and \<open>null\<close> become the texts of their names, which fail.
\<close>

definition strip0x :: "string \<Rightarrow> string" where
  "strip0x s = (case s of
       a # b # r \<Rightarrow> if a = CHR ''0'' \<and> (b = CHR ''x'' \<or> b = CHR ''X'') then r else s
     | _ \<Rightarrow> s)"

definition isAddress :: "(string \<Rightarrow> bool) \<Rightarrow> string option \<Rightarrow> bool" where
  "isAddress chk v = (case v of
       None \<Rightarrow> False
     | Some s \<Rightarrow>
         (let h = strip0x s in
          if \<not> (length h = 40 \<and> list_all (\<lambda>c. c \<in> set ''0123456789abcdefABCDEF'') h) then False
          else if list_all (\<lambda>c. c \<in> set ''0123456789abcdef'') h
                  \<or> list_all (\<lambda>c. c \<in> set ''0123456789ABCDEF'') h then True
          else chk s))"

subsection \<open>Assets.resolve and the service lookups (lines 209-211, 358-384)\<close>

definition resolve :: "'s ocean \<Rightarrow> string \<Rightarrow> ('s, ddo) prog" where
  "resolve oc did = query (RetrieveDDO did) (\<lambda>s. retrieveDDO oc s did)"

text \<open>The \<open>forEach\<close> loop of both lookups: \<open>service\<close> starts undefined and is
  overwritten at every element that matches.\<close>

fun forEach_assign :: "('a \<Rightarrow> bool) \<Rightarrow> 'a list \<Rightarrow> 'a option \<Rightarrow> 'a option" where
  "forEach_assign P [] service = service"
| "forEach_assign P (serv # rest) service =
     forEach_assign P rest (if P serv then Some serv else service)"

definition getServiceByType :: "'s ocean \<Rightarrow> string \<Rightarrow> string \<Rightarrow> ('s, service option) prog" where
  "getServiceByType oc did serviceType =
     bind_io (resolve oc did) (\<lambda>d.
       ret (forEach_assign (\<lambda>serv. stype serv = serviceType) (services d) None))"

text \<open>The index compared is a number in the signature; \<open>order\<close> can pass the
  \<open>index\<close> it read from a service, which is absent on a service without one.\<close>

definition getServiceByIndex :: "'s ocean \<Rightarrow> string \<Rightarrow> int option \<Rightarrow> ('s, service option) prog" where
  "getServiceByIndex oc did serviceIndex =
     bind_io (resolve oc did) (\<lambda>d.
       ret (forEach_assign (\<lambda>serv. index serv = serviceIndex) (services d) None))"

subsection \<open>Assets.creator (lines 315-328)\<close>

definition creator_of :: "'s ocean \<Rightarrow> string \<Rightarrow> ('s, string) prog" where
  "creator_of oc did =
     bind_io (resolve oc did) (\<lambda>d.
       let chk = getChecksum oc d in
       case ddo_proof d of
         None \<Rightarrow> throw TypeError
       | Some p \<Rightarrow>
           bind_io (query (VerifyText chk (signatureValue p))
                      (\<lambda>s. verifyText oc s chk (signatureValue p))) (\<lambda>signer.
           bind_io (if toLowerCase signer \<noteq> toLowerCase (creator p)
                    then emit (Log Logger_warn) else ret ()) (\<lambda>_.
           ret (creator p))))"

subsection \<open>Assets.updateComputePrivacy (lines 287-308)\<close>

definition updateComputePrivacy ::
  "'s ocean \<Rightarrow> string \<Rightarrow> int \<Rightarrow> privacy \<Rightarrow> account \<Rightarrow> ('s, ddo option) prog" where
  "updateComputePrivacy oc did serviceIndex computePrivacy acct =
     bind_io (resolve oc did) (\<lambda>oldDdo.
       case nth_js (services oldDdo) serviceIndex of
         None \<Rightarrow> throw TypeError
       | Some sv \<Rightarrow>
           if stype sv \<noteq> ''compute'' then ret None
           else (case privacy (main (attributes sv)) of
               None \<Rightarrow> throw TypeError
             | Some p \<Rightarrow>
                 (let p' = p\<lparr> allowRawAlgorithm := allowRawAlgorithm computePrivacy,
                              allowNetworkAccess := allowNetworkAccess computePrivacy,
                              trustedAlgorithms := trustedAlgorithms computePrivacy \<rparr>;
                      sv' = sv\<lparr> attributes := (attributes sv)
                                \<lparr> main := (main (attributes sv))\<lparr> privacy := Some p' \<rparr> \<rparr> \<rparr>;
                      newDdo = oldDdo\<lparr> services := (services oldDdo)[nat serviceIndex := sv'] \<rparr>
                  in bind_io (effect (Update (did_id newDdo) newDdo (acc_id acct))
                               (metadata_update oc (did_id newDdo) newDdo (acc_id acct))) (\<lambda>storeTx.
                     if storeTx then ret (Some newDdo) else ret None))))"

subsection \<open>Assets.download (lines 517-553)\<close>

text \<open>Lines 538-540: the destination is made only from a non-empty one.\<close>

definition download_destination :: "'s ocean \<Rightarrow> ddo \<Rightarrow> int \<Rightarrow> string option \<Rightarrow> string option" where
  "download_destination oc d i destination =
     (case destination of
        None \<Rightarrow> None
      | Some p \<Rightarrow> if p = [] then None
                  else Some (p @ ''/datafile.'' @ shortId oc d @ ''.'' @ toString i @ ''/''))"

definition download ::
  "'s ocean \<Rightarrow> string \<Rightarrow> string \<Rightarrow> string \<Rightarrow> account \<Rightarrow> string option \<Rightarrow> ('s, bool) prog" where
  "download oc did txId tokenAddress consumerAccount destination =
     bind_io (resolve oc did) (\<lambda>d.
       case findServiceByType oc d ''metadata'' of
         None \<Rightarrow> throw TypeError
       | Some m \<Rightarrow>
          (case findServiceByType oc d ''access'' of
             None \<Rightarrow> throw TypeError
           | Some sv \<Rightarrow>
               if \<not> truthy (serviceEndpoint sv) then throw MissingEndpoint
               else bind_io (emit (Log Logger_log)) (\<lambda>_.
                 case index sv of
                   None \<Rightarrow> throw TypeError
                 | Some i \<Rightarrow>
                    (let dest = download_destination oc d i destination
                     in bind_io (effect (ProviderDownload did txId tokenAddress (stype sv) (toString i)
                                           dest consumerAccount (files (main (attributes m))))
                                   (provider_download oc did txId tokenAddress (stype sv) (toString i)
                                           dest consumerAccount (files (main (attributes m))))) (\<lambda>_.
                        ret True)))))"

subsection \<open>Assets.initialize and Assets.order (lines 427-514)\<close>

text \<open>The parameter \<open>serviceIndex = -1\<close>: an undefined argument takes the default.\<close>

definition initialize ::
  "'s ocean \<Rightarrow> string \<Rightarrow> string \<Rightarrow> string \<Rightarrow> int option \<Rightarrow> ('s, providerData option) prog" where
  "initialize oc did serviceType consumerAddress serviceIndex =
     (let si = (case serviceIndex of None \<Rightarrow> - 1 | Some i \<Rightarrow> i) in
      bind_io (query (ProviderInitialize did si serviceType consumerAddress)
                 (\<lambda>s. provider_initialize oc s did si serviceType consumerAddress)) (\<lambda>res.
        case res of
          None \<Rightarrow> ret None
        | Some txt \<Rightarrow> (case JSON_parse oc txt of Inl e \<Rightarrow> throw e | Inr providerData \<Rightarrow> ret providerData)))"

text \<open>The body of the \<open>try\<close> block, lines 469-509. \<open>fromWei\<close> is called at line 490
  for the comparison and at line 503 for the payment, on the same text; where it throws,
  the exception leaves the block.\<close>

definition order_try ::
  "'s ocean \<Rightarrow> string \<Rightarrow> string \<Rightarrow> string \<Rightarrow> int option \<Rightarrow> string option \<Rightarrow> ('s, string option) prog" where
  "order_try oc did serviceType consumerAddress serviceIndex mpAddress =
     bind_io (initialize oc did serviceType consumerAddress serviceIndex) (\<lambda>providerData.
       case providerData of
         None \<Rightarrow> ret None
       | Some pd \<Rightarrow>
     bind_io (getServiceByIndex oc did serviceIndex) (\<lambda>service.
       case service of
         None \<Rightarrow> throw TypeError
       | Some sv \<Rightarrow>
     bind_io (query (GetPreviousValidOrders (pd_dataToken pd) (numTokens pd) (didZeroX oc did)
                       serviceIndex (timeout (main (attributes sv))) consumerAddress)
                (\<lambda>s. getPreviousValidOrders oc s (pd_dataToken pd) (numTokens pd) (didZeroX oc did)
                       serviceIndex (timeout (main (attributes sv))) consumerAddress)) (\<lambda>previousOrder.
       if truthy previousOrder then ret previousOrder
       else
     bind_io (query (Balance (pd_dataToken pd) consumerAddress)
                (\<lambda>s. datatokens_balance oc s (pd_dataToken pd) consumerAddress)) (\<lambda>balance.
       case fromWei oc (String_js oc (numTokens pd)) of
         Inl e \<Rightarrow> throw e
       | Inr totalCost \<Rightarrow>
       if balance \<le> totalCost then bind_io (emit (Log Console_error)) (\<lambda>_. ret None)
       else
       (case fromWei oc (String_js oc (numTokens pd)) of
         Inl e \<Rightarrow> throw e
       | Inr amount \<Rightarrow>
     bind_io (effect (StartOrder (pd_dataToken pd) amount (didZeroX oc did)
                        serviceIndex mpAddress consumerAddress)
                (startOrder oc (pd_dataToken pd) amount (didZeroX oc did)
                        serviceIndex mpAddress consumerAddress)) (\<lambda>txid.
       case txid of
         Some r \<Rightarrow> ret (Some (transactionHash r))
       | None \<Rightarrow> ret None))))))"

definition order ::
  "'s ocean \<Rightarrow> string \<Rightarrow> string \<Rightarrow> string \<Rightarrow> int \<Rightarrow> string option \<Rightarrow> ('s, string option) prog" where
  "order oc did serviceType consumerAddress serviceIndex mpAddress =
     bind_io (if serviceIndex = - 1
              then bind_io (getServiceByType oc did serviceType) (\<lambda>service.
                     case service of
                       None \<Rightarrow> throw TypeError
                     | Some sv \<Rightarrow> ret (index sv, serviceType))
              else bind_io (getServiceByIndex oc did (Some serviceIndex)) (\<lambda>service.
                     case service of
                       None \<Rightarrow> throw TypeError
                     | Some sv \<Rightarrow> ret (Some serviceIndex, stype sv))) (\<lambda>(serviceIndex', serviceType').
     try_catch (order_try oc did serviceType' consumerAddress serviceIndex' mpAddress)
       (\<lambda>e. bind_io (emit (Log Console_error)) (\<lambda>_. ret None)))"

subsection \<open>Assets.create (lines 61-193)\<close>

text \<open>
  Modelled from the spec: \<open>DDO.addProof\<close> (src/ddo/DDO.ts is not among the sources).
  The Proof Attacher computes the checksum of the document, asks the signing
  collaborator for a signature over it and attaches checksum, creator and signature;
  a signing failure is thrown on.
\<close>

definition addProof :: "'s ocean \<Rightarrow> ddo \<Rightarrow> string \<Rightarrow> string option \<Rightarrow> ('s, ddo) prog" where
  "addProof oc d signer password =
     (let chk = getChecksum oc d in
      bind_io (query (SignText chk signer password) (\<lambda>s. signText oc s chk signer password))
        (\<lambda>sig. ret (d\<lparr> ddo_proof := Some \<lparr> checksum = chk, creator = signer, signatureValue = sig \<rparr> \<rparr>)))"

text \<open>Lines 122-174: the document, before its proof.\<close>

definition new_ddo ::
  "'s ocean \<Rightarrow> attributes \<Rightarrow> account \<Rightarrow> service list \<Rightarrow> string \<Rightarrow> string option \<Rightarrow> ddo" where
  "new_ddo oc metadata publisher svcs dtAddress encrypted =
     \<lparr> did_id = DID_getDid oc dtAddress,
       dataToken = dtAddress,
       authentication = [\<lparr> atype = ''RsaSignatureAuthentication2018'',
                           apublicKey = DID_getDid oc dtAddress \<rparr>],
       publicKey = [\<lparr> kid = DID_getDid oc dtAddress, ktype = ''EthereumECDSAKey'',
                      kowner = acc_id publisher \<rparr>],
       services = build_services (metadata_service metadata encrypted) svcs,
       ddo_proof = None \<rparr>"

text \<open>Lines 108-191: from the DID on, the token address known.\<close>

definition create_ddo ::
  "'s ocean \<Rightarrow> attributes \<Rightarrow> account \<Rightarrow> service list \<Rightarrow> string \<Rightarrow> ('s, ddo option) prog" where
  "create_ddo oc metadata publisher svcs dtAddress =
     bind_io (emit (Log Logger_log)) (\<lambda>_.
     bind_io (emit (Progress EncryptingFiles)) (\<lambda>_.
     bind_io (query (ProviderEncrypt (DID_getId oc dtAddress) (files (main metadata)) publisher)
                (\<lambda>s. provider_encrypt oc s (DID_getId oc dtAddress) (files (main metadata)) publisher))
       (\<lambda>encrypted.
     bind_io (emit (Log Logger_log)) (\<lambda>_.
     bind_io (emit (Progress FilesEncrypted)) (\<lambda>_.
     let d = new_ddo oc metadata publisher svcs dtAddress encrypted in
     bind_io (emit (Log Logger_log)) (\<lambda>_.
     bind_io (emit (Progress GeneratingProof)) (\<lambda>_.
     bind_io (addProof oc d (acc_id publisher) (acc_password publisher)) (\<lambda>d'.
     bind_io (emit (Log Logger_log)) (\<lambda>_.
     bind_io (emit (Progress ProofGenerated)) (\<lambda>_.
     bind_io (emit (Log Logger_log)) (\<lambda>_.
     bind_io (emit (Progress StoringDdo)) (\<lambda>_.
     bind_io (effect (Publish (did_id d') d' (acc_id publisher))
                (metadata_publish oc (did_id d') d' (acc_id publisher))) (\<lambda>storeTx.
     bind_io (emit (Log Logger_log)) (\<lambda>_.
     bind_io (emit (Progress DdoStored)) (\<lambda>_.
     if storeTx then ret (Some d') else ret None)))))))))))))))"

text \<open>Lines 83-105: the branch \<open>if (!dtAddress)\<close>. \<open>Inl v\<close> is the early
  \<open>return v\<close> of line 101, \<open>Inr a\<close> the address that the rest goes on with.\<close>

definition create_datatoken ::
  "'s ocean \<Rightarrow> account \<Rightarrow> string option \<Rightarrow> string option \<Rightarrow> string option
   \<Rightarrow> ('s, ddo option + string) prog" where
  "create_datatoken oc publisher cap tname symbol =
     bind_io (emit (Log Logger_log)) (\<lambda>_.
     bind_io (emit (Progress CreatingDataToken)) (\<lambda>_.
     bind_io (query GetURI (metadatastore_getURI oc)) (\<lambda>metadataStoreURI.
     let blob = \<lparr> blob_t = 1, blob_url = metadataStoreURI \<rparr> in
     bind_io (effect (DatatokensCreate blob (acc_id publisher) cap tname symbol)
                (datatokens_create oc blob (acc_id publisher) cap tname symbol)) (\<lambda>created.
     case created of
       None \<Rightarrow> bind_io (emit (Log Logger_error)) (\<lambda>_. ret (Inl None))
     | Some a \<Rightarrow>
         if \<not> isAddress (checkAddressChecksum oc) (Some a)
         then bind_io (emit (Log Logger_error)) (\<lambda>_. ret (Inl None))
         else bind_io (emit (Log Logger_log)) (\<lambda>_.
              bind_io (emit (Progress DataTokenCreated)) (\<lambda>_.
              ret (Inr a)))))))"

text \<open>Lines 78-192: what the promise runs.\<close>

definition create_executor ::
  "'s ocean \<Rightarrow> attributes \<Rightarrow> account \<Rightarrow> service list \<Rightarrow> string option
   \<Rightarrow> string option \<Rightarrow> string option \<Rightarrow> string option \<Rightarrow> ('s, ddo option) prog" where
  "create_executor oc metadata publisher svcs dtAddress cap tname symbol =
     bind_io (if length svcs = 0 then emit (Log Logger_log) else ret ()) (\<lambda>_.
     bind_io (case dtAddress of
                None \<Rightarrow> create_datatoken oc publisher cap tname symbol
              | Some a \<Rightarrow> if a = [] then create_datatoken oc publisher cap tname symbol
                          else ret (Inr a)) (\<lambda>r.
     case r of
       Inl v \<Rightarrow> ret v
     | Inr a \<Rightarrow> create_ddo oc metadata publisher svcs a))"

text \<open>
  The method itself. \<open>None\<close> is the \<open>return null\<close> of line 74: no promise is made,
  nothing runs. \<open>Some r\<close> is the promise settled with \<open>r\<close>: \<open>Inr v\<close> its value,
  \<open>Inl e\<close> the exception it is rejected with.
\<close>

definition create ::
  "'s ocean \<Rightarrow> attributes \<Rightarrow> account \<Rightarrow> service list \<Rightarrow> string option
   \<Rightarrow> string option \<Rightarrow> string option \<Rightarrow> string option
   \<Rightarrow> 's \<times> event list \<Rightarrow> (exn + ddo option) option \<times> ('s \<times> event list)" where
  "create oc metadata publisher svcs dtAddress cap tname symbol \<sigma> =
     (if \<not> isAddress (checkAddressChecksum oc) dtAddress
      then (None, (fst \<sigma>, snd \<sigma> @ [Log Logger_error]))
      else (case create_executor oc metadata publisher svcs dtAddress cap tname symbol
                   (fst \<sigma>, snd \<sigma> @ [Log Logger_log]) of
              (r, \<sigma>') \<Rightarrow> (Some r, \<sigma>')))"

subsection \<open>The calls of an order, for the statements below\<close>

text \<open>The collaborator calls that \<open>order\<close> makes, in order, up to the reading of
  the balance: the service is looked up, the provider quotes, the service is looked up
  again, the ledger is asked for a previous order and for the balance.\<close>

definition order_lookup_calls ::
  "'s ocean \<Rightarrow> string \<Rightarrow> string \<Rightarrow> string \<Rightarrow> int option \<Rightarrow> providerData \<Rightarrow> service \<Rightarrow> event list" where
  "order_lookup_calls oc did st consumer si pd sv =
     [Call (RetrieveDDO did),
      Call (ProviderInitialize did (case si of None \<Rightarrow> - 1 | Some i \<Rightarrow> i) st consumer),
      Call (RetrieveDDO did),
      Call (GetPreviousValidOrders (pd_dataToken pd) (numTokens pd) (didZeroX oc did) si
              (timeout (main (attributes sv))) consumer)]"

definition order_balance_calls ::
  "'s ocean \<Rightarrow> string \<Rightarrow> string \<Rightarrow> string \<Rightarrow> int option \<Rightarrow> providerData \<Rightarrow> service \<Rightarrow> event list" where
  "order_balance_calls oc did st consumer si pd sv =
     order_lookup_calls oc did st consumer si pd sv @ [Call (Balance (pd_dataToken pd) consumer)]"

subsection \<open>The events of a publication, for the statements below\<close>

text \<open>What \<open>create\<close> emits and calls while it creates the token (lines 83-105).\<close>

definition datatoken_events ::
  "account \<Rightarrow> string option \<Rightarrow> string option \<Rightarrow> string option \<Rightarrow> string \<Rightarrow> event list" where
  "datatoken_events publisher cap tname symbol uri =
     [Log Logger_log, Progress CreatingDataToken, Call GetURI,
      Call (DatatokensCreate \<lparr> blob_t = 1, blob_url = uri \<rparr> (acc_id publisher) cap tname symbol),
      Log Logger_log, Progress DataTokenCreated]"

text \<open>What it emits and calls from the encryption up to the storing step (lines 110-181),
  for the document \<open>d\<close> it has built.\<close>

definition ddo_events :: "'s ocean \<Rightarrow> attributes \<Rightarrow> account \<Rightarrow> string \<Rightarrow> ddo \<Rightarrow> event list" where
  "ddo_events oc metadata publisher dtAddress d =
     [Log Logger_log, Progress EncryptingFiles,
      Call (ProviderEncrypt (DID_getId oc dtAddress) (files (main metadata)) publisher),
      Log Logger_log, Progress FilesEncrypted,
      Log Logger_log, Progress GeneratingProof,
      Call (SignText (getChecksum oc d) (acc_id publisher) (acc_password publisher)),
      Log Logger_log, Progress ProofGenerated,
      Log Logger_log, Progress StoringDdo]"

text \<open>The document with the proof that the signature \<open>sig\<close> makes.\<close>

definition with_proof :: "'s ocean \<Rightarrow> ddo \<Rightarrow> account \<Rightarrow> string \<Rightarrow> ddo" where
  "with_proof oc d publisher sig =
     d\<lparr> ddo_proof := Some \<lparr> checksum = getChecksum oc d, creator = acc_id publisher,
                            signatureValue = sig \<rparr> \<rparr>"

text \<open>The progress steps of a trace, in the order they were given to the observer.\<close>

fun progress_steps :: "event list \<Rightarrow> CreateProgressStep list" where
  "progress_steps [] = []"
| "progress_steps (Progress p # es) = p # progress_steps es"
| "progress_steps (e # es) = progress_steps es"

subsection \<open>What the builder keeps, in the words of a specification\<close>

text \<open>The positions of a candidate list that no later entry of the same type follows,
  in increasing order.\<close>

definition last_positions :: "service list \<Rightarrow> nat list" where
  "last_positions c = filter (\<lambda>i. stype (c ! i) \<notin> stype ` set (drop (Suc i) c)) [0..<length c]"

text \<open>The same survivors by recursion: an entry is dropped when its type comes again.\<close>

fun last_wins :: "service list \<Rightarrow> service list" where
  "last_wins [] = []"
| "last_wins (s # l) = (if stype s \<in> stype ` set l then last_wins l else s # last_wins l)"

subsection \<open>An example world\<close>

text \<open>
  A concrete asset and concrete collaborators, on which the theorems below are
  instantiated. The state counts the effects performed.
\<close>

definition demo_token :: string where
  "demo_token = ''0x00000000000000000000000000000000000000a1''"

definition demo_did :: string where
  "demo_did = ''did:op:00000000000000000000000000000000000000a1''"

definition demo_publisher :: account where
  "demo_publisher = \<lparr> acc_id = ''0xpublisher'', acc_password = Some ''secret'' \<rparr>"

definition demo_consumer :: account where
  "demo_consumer = \<lparr> acc_id = ''0xconsumer'', acc_password = None \<rparr>"

definition demo_metadata :: attributes where
  "demo_metadata =
     \<lparr> main = \<lparr> name = Some ''dataset'',
                files = [\<lparr> url = Some ''https://example.com/data.csv'', findex = None,
                           contentType = ''text/csv'' \<rparr>],
                cost = None, timeout = None, privacy = None \<rparr>,
       curation = None, additionalInformation = None, encryptedFiles = None \<rparr>"

definition demo_metadata2 :: attributes where
  "demo_metadata2 = demo_metadata\<lparr> additionalInformation := Some ''second payload'' \<rparr>"

definition demo_access :: service where
  "demo_access =
     \<lparr> stype = ''access'', index = Some 2, serviceEndpoint = Some ''https://provider/consume'',
       attributes = \<lparr> main = \<lparr> name = Some ''dataAssetAccess'', files = [], cost = Some ''100'',
                                timeout = Some 3600, privacy = None \<rparr>,
                      curation = None, additionalInformation = None, encryptedFiles = None \<rparr> \<rparr>"

definition demo_compute :: service where
  "demo_compute =
     \<lparr> stype = ''compute'', index = Some 3, serviceEndpoint = Some ''https://provider/compute'',
       attributes = \<lparr> main = \<lparr> name = Some ''dataAssetCompute'', files = [], cost = Some ''100'',
                                timeout = Some 3600,
                                privacy = Some \<lparr> allowRawAlgorithm = False,
                                                 allowNetworkAccess = False,
                                                 trustedAlgorithms = [] \<rparr> \<rparr>,
                      curation = None, additionalInformation = None, encryptedFiles = None \<rparr> \<rparr>"

definition demo_ddo :: ddo where
  "demo_ddo =
     \<lparr> did_id = demo_did,
       dataToken = demo_token,
       authentication = [],
       publicKey = [],
       services = build_services (metadata_service demo_metadata (Some ''encrypted''))
                    [demo_access, demo_compute],
       ddo_proof = Some \<lparr> checksum = ''c0ffee'', creator = ''0xPublisher'',
                           signatureValue = ''0xsigned'' \<rparr> \<rparr>"

definition demo_quote :: providerData where
  "demo_quote = \<lparr> pd_dataToken = demo_token, numTokens = JString ''100000000000000000000'' \<rparr>"

text \<open>The reading of a text of wei in the example world: a text of decimal digits is the
  number divided by \<open>10 ^ 18\<close>, any other text is refused. Integers below \<open>10^21\<close>
  print their digits; \<open>10^21\<close>, the one larger number of the examples, prints as
  \<open>1e+21\<close>.\<close>

definition decimal_of :: "string \<Rightarrow> nat option" where
  "decimal_of t =
     (if t = [] then None
      else foldl (\<lambda>acc c.
             case (acc, map_of (zip ''0123456789'' [0, 1, 2, 3, 4, 5, 6, 7, 8, 9 :: nat]) c) of
               (Some n, Some k) \<Rightarrow> Some (10 * n + k)
             | _ \<Rightarrow> None) (Some 0) t)"

definition demo_fromWei :: "string \<Rightarrow> exn + rat" where
  "demo_fromWei t =
     (case decimal_of t of
        Some n \<Rightarrow> Inr (of_nat n / 10 ^ 18)
      | None \<Rightarrow> Inl (Error ''invalid number value''))"

definition demo_Number_toString :: "rat \<Rightarrow> string" where
  "demo_Number_toString q = (if q = 10 ^ 21 then ''1e+21'' else toString \<lfloor>q\<rfloor>)"

definition demo_ocean :: "nat ocean" where
  "demo_ocean =
     \<lparr> metadatastore_getURI = (\<lambda>s. Inr ''https://aquarius''),
       retrieveDDO = (\<lambda>s did. if did = demo_did then Inr demo_ddo
                                else Inl (CollaboratorError ''not found'')),
       datatokens_create = (\<lambda>blob publisher cap tname symbol s. (Inr (Some demo_token), Suc s)),
       provider_encrypt = (\<lambda>s did fs publisher. Inr (Some ''encrypted'')),
       signText = (\<lambda>s chk signer password. Inr ''0xsigned''),
       verifyText = (\<lambda>s chk sig. Inr ''0xpublisher''),
       metadata_publish = (\<lambda>did d owner s. (Inr True, Suc s)),
       metadata_update = (\<lambda>did d owner s. (Inr True, Suc s)),
       provider_initialize = (\<lambda>s did si st consumer. Inr (Some ''quote'')),
       JSON_parse = (\<lambda>txt. Inr (Some demo_quote)),
       getPreviousValidOrders = (\<lambda>s token amount did si tmo consumer. Inr None),
       datatokens_balance = (\<lambda>s token holder. Inr 101),
       startOrder = (\<lambda>token amount did si mp consumer s.
                       (Inr (Some \<lparr> transactionHash = ''0xpaid'' \<rparr>), Suc s)),
       provider_download = (\<lambda>did txId token st si dest consumer fs s. (Inr (), Suc s)),
       DID_getId = (\<lambda>a. drop 2 a),
       DID_getDid = (\<lambda>a. ''did:op:'' @ drop 2 a),
       didZeroX = (\<lambda>did. ''0x'' @ drop 7 did),
       getChecksum = (\<lambda>d. ''c0ffee''),
       shortId = (\<lambda>d. drop 7 (did_id d)),
       findServiceByType = (\<lambda>d t. find (\<lambda>s. stype s = t) (services d)),
       checkAddressChecksum = (\<lambda>a. False),
       Number_toString = demo_Number_toString,
       fromWei = demo_fromWei \<rparr>"

subsection \<open>The ledger of the specification\<close>

text \<open>
  Modelled from the spec: the ledger's \<open>getPreviousValidOrder\<close>, \<open>startOrder\<close> and
  \<open>balanceOf\<close> (src/datatokens/Datatokens.ts is not among the sources). The ledger keeps
  the receipts of the payments committed, each with the consumer and the time of the
  order. A receipt is reusable for an order of the same (did, serviceIndex, consumer)
  while \<open>now < orderTimestamp + timeout\<close>; the lookup answers with the transaction
  identifier of the most recent reusable receipt, or null. \<open>startOrder\<close> commits the
  payment: it moves the amount out of the consumer's balance and files a receipt under a
  new transaction identifier.
\<close>

record stored_order =
  o_transactionHash :: string
  o_did :: string
  o_serviceIndex :: "int option"
  o_consumer :: string
  o_timestamp :: int

record ledger =
  orders :: "stored_order list"
  now :: int
  balances :: "string \<times> string \<Rightarrow> rat"

definition reusable :: "ledger \<Rightarrow> string \<Rightarrow> int option \<Rightarrow> string \<Rightarrow> int option \<Rightarrow> stored_order \<Rightarrow> bool" where
  "reusable l did si consumer tmo r =
     (o_did r = did \<and> o_serviceIndex r = si \<and> o_consumer r = consumer
      \<and> (case tmo of None \<Rightarrow> False | Some t \<Rightarrow> now l < o_timestamp r + t))"

definition ledger_getPreviousValidOrder ::
  "ledger \<Rightarrow> string \<Rightarrow> json_amount \<Rightarrow> string \<Rightarrow> int option \<Rightarrow> int option \<Rightarrow> string \<Rightarrow> string option" where
  "ledger_getPreviousValidOrder l token amount did si tmo consumer =
     (case filter (reusable l did si consumer tmo) (orders l) of
        [] \<Rightarrow> None
      | r # rs \<Rightarrow> Some (o_transactionHash (last (r # rs))))"

definition tx_hash :: "nat \<Rightarrow> string" where
  "tx_hash n = ''0x'' @ digits n"

definition ledger_startOrder ::
  "string \<Rightarrow> rat \<Rightarrow> string \<Rightarrow> int option \<Rightarrow> string option \<Rightarrow> string \<Rightarrow> ledger \<Rightarrow> receipt \<times> ledger" where
  "ledger_startOrder token amount did si feeCollector consumer l =
     (\<lparr> transactionHash = tx_hash (length (orders l)) \<rparr>,
      l\<lparr> orders := orders l @ [\<lparr> o_transactionHash = tx_hash (length (orders l)), o_did = did,
                                 o_serviceIndex = si, o_consumer = consumer,
                                 o_timestamp = now l \<rparr>],
         balances := (balances l)((token, consumer) := balances l (token, consumer) - amount) \<rparr>)"

text \<open>A world whose ledger is this one; the other collaborators are those of \<open>base\<close>,
  on their own part of the state.\<close>

definition with_ledger :: "'w ocean \<Rightarrow> (ledger \<times> 'w) ocean" where
  "with_ledger base =
     \<lparr> metadatastore_getURI = (\<lambda>s. metadatastore_getURI base (snd s)),
       retrieveDDO = (\<lambda>s. retrieveDDO base (snd s)),
       datatokens_create = (\<lambda>blob publisher cap tname symbol s.
          case datatokens_create base blob publisher cap tname symbol (snd s) of
            (r, w') \<Rightarrow> (r, (fst s, w'))),
       provider_encrypt = (\<lambda>s. provider_encrypt base (snd s)),
       signText = (\<lambda>s. signText base (snd s)),
       verifyText = (\<lambda>s. verifyText base (snd s)),
       metadata_publish = (\<lambda>did d owner s.
          case metadata_publish base did d owner (snd s) of (r, w') \<Rightarrow> (r, (fst s, w'))),
       metadata_update = (\<lambda>did d owner s.
          case metadata_update base did d owner (snd s) of (r, w') \<Rightarrow> (r, (fst s, w'))),
       provider_initialize = (\<lambda>s. provider_initialize base (snd s)),
       JSON_parse = JSON_parse base,
       getPreviousValidOrders = (\<lambda>s token amount did si tmo consumer.
          Inr (ledger_getPreviousValidOrder (fst s) token amount did si tmo consumer)),
       datatokens_balance = (\<lambda>s token holder. Inr (balances (fst s) (token, holder))),
       startOrder = (\<lambda>token amount did si mp consumer s.
          case ledger_startOrder token amount did si mp consumer (fst s) of
            (r, l') \<Rightarrow> (Inr (Some r), (l', snd s))),
       provider_download = (\<lambda>did txId token st si dest consumer fs s.
          case provider_download base did txId token st si dest consumer fs (snd s) of
            (r, w') \<Rightarrow> (r, (fst s, w'))),
       DID_getId = DID_getId base,
       DID_getDid = DID_getDid base,
       didZeroX = didZeroX base,
       getChecksum = getChecksum base,
       shortId = shortId base,
       findServiceByType = findServiceByType base,
       checkAddressChecksum = checkAddressChecksum base,
       Number_toString = Number_toString base,
       fromWei = fromWei base \<rparr>"

definition demo_ledger :: ledger where
  "demo_ledger = \<lparr> orders = [], now = 1000, balances = (\<lambda>_. 500) \<rparr>"


text \<open>The example ledger after the consumer has paid for the access service once, and
  the trace of that order.\<close>

definition demo_ledger_paid :: ledger where
  "demo_ledger_paid =
     snd (ledger_startOrder demo_token 100 ''0x00000000000000000000000000000000000000a1''
            (Some 1) None ''0xconsumer'' demo_ledger)"

definition demo_first_order :: "event list" where
  "demo_first_order =
     order_balance_calls (with_ledger demo_ocean) demo_did ''access'' ''0xconsumer'' (Some 1)
       demo_quote (demo_access\<lparr>index := Some 1\<rparr>)
     @ [Call (StartOrder demo_token 100 ''0x00000000000000000000000000000000000000a1''
                (Some 1) None ''0xconsumer'')]"

section \<open>Lemmas\<close>

lemmas io_defs = bind_io_def ret_def throw_def emit_def query_def effect_def try_catch_def resolve_def

lemmas demo_defs = demo_ocean_def demo_ddo_def demo_did_def demo_token_def demo_access_def
  demo_compute_def demo_metadata_def demo_metadata2_def demo_publisher_def demo_consumer_def
  demo_quote_def

lemmas builder_defs = build_services_def remove_duplications_def filter_js_def metadata_service_def

lemmas wei_defs = String_js_def demo_fromWei_def decimal_of_def demo_Number_toString_def

subsection \<open>The lookup loop\<close>

lemma forEach_assign_append:
  "forEach_assign P (xs @ [x]) acc = (if P x then Some x else forEach_assign P xs acc)"
  by (induction xs arbitrary: acc) auto

lemma forEach_assign_last:
  "forEach_assign P xs None = (if filter P xs = [] then None else Some (last (filter P xs)))"
  by (induction xs rule: rev_induct) (auto simp: forEach_assign_append)

subsection \<open>findIndex and the filter\<close>

lemma findIndex_ge: "- 1 \<le> findIndex P xs"
  by (induction xs) (auto simp: Let_def)

lemma findIndex_notin: "findIndex P xs = - 1 \<longleftrightarrow> (\<forall>x\<in>set xs. \<not> P x)"
proof (induction xs)
  case Nil
  show ?case by simp
next
  case (Cons a xs)
  have "findIndex P xs + 1 \<noteq> - 1" using findIndex_ge[of P xs] by arith
  with Cons show ?case by (auto simp: Let_def)
qed

lemma findIndex_append:
  "\<exists>x\<in>set xs. P x \<Longrightarrow> findIndex P (xs @ ys) = findIndex P xs"
  by (induction xs) (auto simp: Let_def findIndex_notin)

lemma findIndex_lt: "\<exists>x\<in>set xs. P x \<Longrightarrow> findIndex P xs < int (length xs)"
  by (induction xs) (auto simp: Let_def findIndex_notin)

lemma findIndex_append_new:
  "\<forall>x\<in>set xs. \<not> P x \<Longrightarrow> P y \<Longrightarrow> findIndex P (xs @ [y]) = int (length xs)"
  by (induction xs) (auto simp: Let_def)

lemma filter_from_cong:
  "(\<And>x i. x \<in> set xs \<Longrightarrow> cb x i l = cb' x i l') \<Longrightarrow> filter_from k cb l xs = filter_from k cb' l' xs"
  by (induction xs arbitrary: k) auto

lemma filter_from_append:
  "filter_from k cb l (xs @ ys) = filter_from k cb l xs @ filter_from (k + length xs) cb l ys"
  by (induction xs arbitrary: k) auto

lemma filter_js_snoc:
  "filter_js (\<lambda>s i list. findIndex (\<lambda>s'. stype s' = stype s) list = i) (xs @ [y]) =
   filter_js (\<lambda>s i list. findIndex (\<lambda>s'. stype s' = stype s) list = i) xs
     @ (if stype y \<in> stype ` set xs then [] else [y])"
proof -
  let ?cb = "\<lambda>s i list. findIndex (\<lambda>s'. stype s' = stype s) list = i"
  have a: "filter_from 0 ?cb (xs @ [y]) xs = filter_from 0 ?cb xs xs"
  proof (rule filter_from_cong)
    fix x i assume "x \<in> set xs"
    then have "\<exists>z\<in>set xs. stype z = stype x" by blast
    then show "(findIndex (\<lambda>s'. stype s' = stype x) (xs @ [y]) = i)
                = (findIndex (\<lambda>s'. stype s' = stype x) xs = i)"
      by (simp add: findIndex_append)
  qed
  have b: "filter_from (length xs) ?cb (xs @ [y]) [y] = (if stype y \<in> stype ` set xs then [] else [y])"
  proof (cases "stype y \<in> stype ` set xs")
    case True
    then have e: "\<exists>x\<in>set xs. stype x = stype y" by auto
    from findIndex_lt[of xs "\<lambda>s'. stype s' = stype y", OF e]
         findIndex_append[of xs "\<lambda>s'. stype s' = stype y" "[y]", OF e] True
    show ?thesis by simp
  next
    case False
    then have "\<forall>x\<in>set xs. \<not> stype x = stype y" by (metis imageI)
    from findIndex_append_new[of xs "\<lambda>s'. stype s' = stype y" y, OF this] False
    show ?thesis by simp
  qed
  show ?thesis
    unfolding filter_js_def filter_from_append using a b by simp
qed

lemma remove_duplications_last_wins: "remove_duplications l = last_wins l"
proof (induction l)
  case Nil
  show ?case by (simp add: remove_duplications_def filter_js_def)
next
  case (Cons s l)
  then show ?case
    by (simp add: remove_duplications_def filter_js_snoc)
qed

lemma last_positions_Cons:
  "last_positions (s # l) = (if stype s \<in> stype ` set l then [] else [0]) @ map Suc (last_positions l)"
  by (simp add: last_positions_def upt_conv_Cons filter_map comp_def del: upt_Suc flip: map_Suc_upt)

lemma last_wins_positions: "last_wins c = map ((!) c) (last_positions c)"
proof (induction c)
  case Nil
  show ?case by (simp add: last_positions_def)
next
  case (Cons s l)
  then show ?case by (simp add: last_positions_Cons comp_def)
qed

lemma adding_index_enum:
  "adding_index (int n) xs = map (\<lambda>(i, s). s\<lparr>index := Some (int i)\<rparr>) (enumerate n xs)"
proof (induction xs arbitrary: n)
  case Nil
  show ?case by simp
next
  case (Cons x xs)
  have e: "int n + 1 = int (Suc n)" by simp
  show ?case
    by (simp only: adding_index.simps enumerate_simps list.map e Cons prod.case)
qed

lemma enumerate_map_nth:
  "enumerate n (map f xs) = map (\<lambda>(k, x). (k, f x)) (enumerate n xs)"
  by (induction xs arbitrary: n) auto

section \<open>The claims\<close>

text \<open>
  Claim C1, as amended. For every candidate list \<open>[defaultMetadataService, ...callerServices]\<close>
  the builder keeps, for each service type, the entry of that type that occurs last;
  the survivors stand in the order of these last occurrences (not of the first ones), and
  the indices \<open>0 .. n-1\<close> are assigned in that order. In particular the types
  \<open>[metadata, access, metadata]\<close> give \<open>[access, metadata]\<close> with indices 0 and 1, the
  metadata entry being the one of position 2.
\<close>

theorem build_services_last_occurrences:
  "build_services d cs =
     map (\<lambda>(k, i). ((d # cs) ! i)\<lparr>index := Some (int k)\<rparr>) (enumerate 0 (last_positions (d # cs)))
   \<and> build_services (m0\<lparr>stype := ''metadata''\<rparr>)
        [a\<lparr>stype := ''access''\<rparr>, m2\<lparr>stype := ''metadata''\<rparr>]
      = [a\<lparr>stype := ''access'', index := Some 0\<rparr>, m2\<lparr>stype := ''metadata'', index := Some 1\<rparr>]"
proof
  have "build_services d cs = adding_index (int 0) (map ((!) (d # cs)) (last_positions (d # cs)))"
    by (simp only: build_services_def remove_duplications_last_wins last_wins_positions of_nat_0)
  also have "\<dots> = map (\<lambda>(k, i). ((d # cs) ! i)\<lparr>index := Some (int k)\<rparr>)
                     (enumerate 0 (last_positions (d # cs)))"
    by (simp only: adding_index_enum enumerate_map_nth map_map comp_def case_prod_unfold fst_conv snd_conv)
  finally show "build_services d cs =
     map (\<lambda>(k, i). ((d # cs) ! i)\<lparr>index := Some (int k)\<rparr>) (enumerate 0 (last_positions (d # cs)))" .
next
  show "build_services (m0\<lparr>stype := ''metadata''\<rparr>)
        [a\<lparr>stype := ''access''\<rparr>, m2\<lparr>stype := ''metadata''\<rparr>]
      = [a\<lparr>stype := ''access'', index := Some 0\<rparr>, m2\<lparr>stype := ''metadata'', index := Some 1\<rparr>]"
    by (simp add: build_services_def remove_duplications_last_wins)
qed

text \<open>
  The claim as the specification states it fails: on the default metadata entry followed by
  an access service and a second metadata service, the result is not
  \<open>[metadata (second payload), access]\<close>; the access service comes first.
\<close>

theorem build_services_first_position_counterexample:
  "build_services (metadata_service demo_metadata (Some ''encrypted''))
     [demo_access, \<lparr> stype = ''metadata'', index = None, serviceEndpoint = None,
                     attributes = demo_metadata2 \<rparr>]
   \<noteq> [\<lparr> stype = ''metadata'', index = Some 0, serviceEndpoint = None, attributes = demo_metadata2 \<rparr>,
       demo_access\<lparr> index := Some 1 \<rparr>]
   \<and> build_services (metadata_service demo_metadata (Some ''encrypted''))
     [demo_access, \<lparr> stype = ''metadata'', index = None, serviceEndpoint = None,
                     attributes = demo_metadata2 \<rparr>]
   = [demo_access\<lparr> index := Some 0 \<rparr>,
      \<lparr> stype = ''metadata'', index = Some 1, serviceEndpoint = None, attributes = demo_metadata2 \<rparr>]"
  by (simp add: builder_defs demo_defs)

text \<open>
  Claim C9. For a document that resolves, \<open>getServiceByType\<close> and
  \<open>getServiceByIndex\<close> return the last descriptor, in document order, that has the
  requested type or index, and the absent value when there is none; neither raises, and
  the only collaborator call is the retrieval of the document.
\<close>

theorem service_lookup_last_match:
  assumes "retrieveDDO oc (fst \<sigma>) did = Inr d"
  shows "getServiceByType oc did serviceType \<sigma> =
           (Inr (case filter (\<lambda>serv. stype serv = serviceType) (services d) of
                   [] \<Rightarrow> None | m # ms \<Rightarrow> Some (last (m # ms))),
            (fst \<sigma>, snd \<sigma> @ [Call (RetrieveDDO did)]))
       \<and> getServiceByIndex oc did (Some i) \<sigma> =
           (Inr (case filter (\<lambda>serv. index serv = Some i) (services d) of
                   [] \<Rightarrow> None | m # ms \<Rightarrow> Some (last (m # ms))),
            (fst \<sigma>, snd \<sigma> @ [Call (RetrieveDDO did)]))"
  using assms
  by (simp add: getServiceByType_def getServiceByIndex_def io_defs forEach_assign_last
           split: list.splits)

theorem service_lookup_last_match_witness:
  "retrieveDDO demo_ocean (fst (0::nat, [])) demo_did = Inr demo_ddo
   \<and> getServiceByType demo_ocean demo_did ''access'' (0, []) =
       (Inr (Some (demo_access\<lparr>index := Some 1\<rparr>)), (0, [Call (RetrieveDDO demo_did)]))
   \<and> getServiceByIndex demo_ocean demo_did (Some 7) (0, []) =
       (Inr None, (0, [Call (RetrieveDDO demo_did)]))"
  using service_lookup_last_match [of demo_ocean "(0, [])" demo_did demo_ddo "''access''" 7]
  by (simp add: demo_defs builder_defs)

text \<open>
  Claim C10. When the service at position \<open>serviceIndex\<close> of the resolved document is
  not of type \<open>compute\<close>, \<open>updateComputePrivacy\<close> returns null; the only collaborator
  call is the retrieval, so the update operation of the metadata index is not called, and
  the state of the outside world is the one it started in.
\<close>

theorem updateComputePrivacy_not_compute:
  assumes "retrieveDDO oc (fst \<sigma>) did = Inr d"
      and "nth_js (services d) serviceIndex = Some sv"
      and "stype sv \<noteq> ''compute''"
  shows "updateComputePrivacy oc did serviceIndex computePrivacy acct \<sigma> =
           (Inr None, (fst \<sigma>, snd \<sigma> @ [Call (RetrieveDDO did)]))"
  using assms by (simp add: updateComputePrivacy_def io_defs)

theorem updateComputePrivacy_not_compute_witness:
  "retrieveDDO demo_ocean (fst (0::nat, [])) demo_did = Inr demo_ddo
   \<and> nth_js (services demo_ddo) 1 = Some (demo_access\<lparr>index := Some 1\<rparr>)
   \<and> stype (demo_access\<lparr>index := Some 1\<rparr>) \<noteq> ''compute''
   \<and> updateComputePrivacy demo_ocean demo_did 1
        \<lparr> allowRawAlgorithm = True, allowNetworkAccess = True, trustedAlgorithms = [] \<rparr>
        demo_publisher (0, []) = (Inr None, (0, [Call (RetrieveDDO demo_did)]))"
  using updateComputePrivacy_not_compute [of demo_ocean "(0, [])" demo_did demo_ddo 1
          "demo_access\<lparr>index := Some 1\<rparr>"
          "\<lparr> allowRawAlgorithm = True, allowNetworkAccess = True, trustedAlgorithms = [] \<rparr>"
          demo_publisher]
  by (simp add: demo_defs builder_defs nth_js_def)

text \<open>
  Claim C8. For an asset that resolves with a proof, \<open>creator\<close> returns the
  \<open>creator\<close> field of the proof whatever identity the verification of the signature
  recovers: when the two differ (compared in lower case) a warning is logged and nothing
  is raised, when they agree nothing is logged.
\<close>

theorem creator_returns_proof_creator:
  assumes "retrieveDDO oc (fst \<sigma>) did = Inr d"
      and "ddo_proof d = Some p"
      and "verifyText oc (fst \<sigma>) (getChecksum oc d) (signatureValue p) = Inr signer"
  shows "creator_of oc did \<sigma> =
           (Inr (creator p),
            (fst \<sigma>, snd \<sigma> @ [Call (RetrieveDDO did),
                              Call (VerifyText (getChecksum oc d) (signatureValue p))]
                           @ (if toLowerCase signer \<noteq> toLowerCase (creator p)
                              then [Log Logger_warn] else [])))"
  using assms by (simp add: creator_of_def io_defs Let_def)

theorem creator_returns_proof_creator_witness:
  "creator_of (demo_ocean\<lparr> verifyText := (\<lambda>s chk sig. Inr ''0xsomeoneelse'') \<rparr>) demo_did (0, []) =
     (Inr ''0xPublisher'',
      (0, [Call (RetrieveDDO demo_did), Call (VerifyText ''c0ffee'' ''0xsigned''), Log Logger_warn]))
   \<and> creator_of demo_ocean demo_did (0, []) =
     (Inr ''0xPublisher'',
      (0, [Call (RetrieveDDO demo_did), Call (VerifyText ''c0ffee'' ''0xsigned'')]))"
  using creator_returns_proof_creator
          [of "demo_ocean\<lparr> verifyText := (\<lambda>s chk sig. Inr ''0xsomeoneelse'') \<rparr>" "(0, [])" demo_did
              demo_ddo "\<lparr> checksum = ''c0ffee'', creator = ''0xPublisher'', signatureValue = ''0xsigned'' \<rparr>"
              "''0xsomeoneelse''"]
        creator_returns_proof_creator
          [of demo_ocean "(0, [])" demo_did
              demo_ddo "\<lparr> checksum = ''c0ffee'', creator = ''0xPublisher'', signatureValue = ''0xsigned'' \<rparr>"
              "''0xpublisher''"]
  by (simp add: demo_defs toLowerCase_def lower_char_def)

text \<open>
  Claim C6. In \<open>download\<close>, for a document that resolves and has a metadata and an
  access service: when the access service has no \<open>serviceEndpoint\<close> (absent or empty),
  the error is thrown and the only collaborator call made is the retrieval of the
  document, so no download call; when the endpoint is present (and the service carries
  its index), the download operation of the provider is called, once, and its outcome is
  the outcome of the workflow.
\<close>

theorem download_endpoint_precondition:
  assumes "retrieveDDO oc (fst \<sigma>) did = Inr d"
      and "findServiceByType oc d ''metadata'' = Some m"
      and "findServiceByType oc d ''access'' = Some sv"
  shows "(\<not> truthy (serviceEndpoint sv) \<longrightarrow>
            download oc did txId tokenAddress consumer destination \<sigma> =
              (Inl MissingEndpoint, (fst \<sigma>, snd \<sigma> @ [Call (RetrieveDDO did)])))
       \<and> (truthy (serviceEndpoint sv) \<and> index sv = Some i \<longrightarrow>
            download oc did txId tokenAddress consumer destination \<sigma> =
              (case provider_download oc did txId tokenAddress (stype sv) (toString i)
                      (download_destination oc d i destination) consumer
                      (files (main (attributes m))) (fst \<sigma>) of
                 (r, s') \<Rightarrow>
                   (map_sum id (\<lambda>_. True) r,
                    (s', snd \<sigma> @ [Call (RetrieveDDO did), Log Logger_log,
                       Call (ProviderDownload did txId tokenAddress (stype sv) (toString i)
                               (download_destination oc d i destination) consumer
                               (files (main (attributes m))))]))))"
  using assms
  by (auto simp add: download_def io_defs Let_def split: prod.splits sum.splits option.splits)

theorem download_endpoint_precondition_witness:
  "download (demo_ocean\<lparr> retrieveDDO := (\<lambda>s did. Inr (demo_ddo\<lparr> services :=
                [demo_compute\<lparr> stype := ''metadata'' \<rparr>, demo_access\<lparr> serviceEndpoint := None \<rparr>] \<rparr>)) \<rparr>)
      demo_did ''0xtx'' demo_token demo_consumer None (0, [])
     = (Inl MissingEndpoint, (0, [Call (RetrieveDDO demo_did)]))
   \<and> download (demo_ocean\<lparr> retrieveDDO := (\<lambda>s did. Inr (demo_ddo\<lparr> services :=
                [demo_compute\<lparr> stype := ''metadata'' \<rparr>, demo_access] \<rparr>)) \<rparr>)
      demo_did ''0xtx'' demo_token demo_consumer None (0, [])
     = (Inr True, (1, [Call (RetrieveDDO demo_did), Log Logger_log,
          Call (ProviderDownload demo_did ''0xtx'' demo_token ''access'' ''2'' None demo_consumer [])]))"
  using download_endpoint_precondition
          [of "demo_ocean\<lparr> retrieveDDO := (\<lambda>s did. Inr (demo_ddo\<lparr> services :=
                [demo_compute\<lparr> stype := ''metadata'' \<rparr>, demo_access\<lparr> serviceEndpoint := None \<rparr>] \<rparr>)) \<rparr>"
              "(0, [])" demo_did
              "demo_ddo\<lparr> services := [demo_compute\<lparr> stype := ''metadata'' \<rparr>,
                                       demo_access\<lparr> serviceEndpoint := None \<rparr>] \<rparr>"
              "demo_compute\<lparr> stype := ''metadata'' \<rparr>" "demo_access\<lparr> serviceEndpoint := None \<rparr>"
              "''0xtx''" demo_token demo_consumer None 2]
        download_endpoint_precondition
          [of "demo_ocean\<lparr> retrieveDDO := (\<lambda>s did. Inr (demo_ddo\<lparr> services :=
                [demo_compute\<lparr> stype := ''metadata'' \<rparr>, demo_access] \<rparr>)) \<rparr>"
              "(0, [])" demo_did
              "demo_ddo\<lparr> services := [demo_compute\<lparr> stype := ''metadata'' \<rparr>, demo_access] \<rparr>"
              "demo_compute\<lparr> stype := ''metadata'' \<rparr>" demo_access
              "''0xtx''" demo_token demo_consumer None 2]
  by (simp add: demo_defs truthy_def download_destination_def toString_def)

subsection \<open>The steps of an order\<close>

text \<open>Once the document resolves and the first lookup finds a service, what is left is
  the \<open>try\<close> block with its handler.\<close>

lemma order_located:
  assumes "retrieveDDO oc s did = Inr d"
      and "if serviceIndex = - 1
           then forEach_assign (\<lambda>serv. stype serv = serviceType) (services d) None = Some found
                \<and> si = index found \<and> st = serviceType
           else forEach_assign (\<lambda>serv. index serv = Some serviceIndex) (services d) None = Some found
                \<and> si = Some serviceIndex \<and> st = stype found"
  shows "order oc did serviceType consumer serviceIndex mp (s, tr) =
           try_catch (order_try oc did st consumer si mp)
             (\<lambda>e. bind_io (emit (Log Console_error)) (\<lambda>_. ret None))
             (s, tr @ [Call (RetrieveDDO did)])"
  using assms
  by (simp add: order_def getServiceByType_def getServiceByIndex_def bind_io_def ret_def
        query_def resolve_def split: if_splits)

lemma order_missing_service_raises:
  assumes "retrieveDDO oc s did = Inr d"
      and "if serviceIndex = - 1
           then forEach_assign (\<lambda>serv. stype serv = serviceType) (services d) None = None
           else forEach_assign (\<lambda>serv. index serv = Some serviceIndex) (services d) None = None"
  shows "order oc did serviceType consumer serviceIndex mp (s, tr) =
           (Inl TypeError, (s, tr @ [Call (RetrieveDDO did)]))"
  using assms
  by (simp add: order_def getServiceByType_def getServiceByIndex_def bind_io_def ret_def
        throw_def query_def resolve_def split: if_splits)

lemma try_catch_never_raises:
  "\<exists>v \<sigma>'. try_catch m (\<lambda>e. bind_io (emit ev) (\<lambda>_. ret w)) \<sigma> = (Inr v, \<sigma>')"
  by (cases "m \<sigma>" rule: prod.exhaust; cases "fst (m \<sigma>)")
     (auto simp: try_catch_def bind_io_def emit_def ret_def)

lemma order_try_no_quote:
  assumes "provider_initialize oc s did (case si of None \<Rightarrow> - 1 | Some i \<Rightarrow> i) st consumer = Inr None"
  shows "order_try oc did st consumer si mp (s, tr) =
           (Inr None, (s, tr @ [Call (ProviderInitialize did (case si of None \<Rightarrow> - 1 | Some i \<Rightarrow> i) st consumer)]))"
  using assms by (simp add: order_try_def initialize_def bind_io_def ret_def query_def Let_def)

text \<open>With a quote, the service found again and no previous order, the \<open>try\<close> block
  is at the balance; what follows turns on the conversion of the quoted amount.\<close>

lemma order_try_at_balance:
  assumes "retrieveDDO oc s did = Inr d"
      and "provider_initialize oc s did (case si of None \<Rightarrow> - 1 | Some i \<Rightarrow> i) st consumer = Inr (Some res)"
      and "JSON_parse oc res = Inr (Some pd)"
      and "forEach_assign (\<lambda>serv. index serv = si) (services d) None = Some sv"
      and "getPreviousValidOrders oc s (pd_dataToken pd) (numTokens pd) (didZeroX oc did) si
             (timeout (main (attributes sv))) consumer = Inr prev"
      and "\<not> truthy prev"
      and "datatokens_balance oc s (pd_dataToken pd) consumer = Inr balance"
  shows "order_try oc did st consumer si mp (s, tr @ [Call (RetrieveDDO did)]) =
           (case fromWei oc (String_js oc (numTokens pd)) of
              Inl e \<Rightarrow> (Inl e, (s, tr @ order_balance_calls oc did st consumer si pd sv))
            | Inr totalCost \<Rightarrow>
               if balance \<le> totalCost
               then (Inr None, (s, tr @ order_balance_calls oc did st consumer si pd sv @ [Log Console_error]))
               else (case startOrder oc (pd_dataToken pd) totalCost (didZeroX oc did)
                         si mp consumer s of
                    (r, s') \<Rightarrow>
                      (map_sum id (map_option transactionHash) r,
                       (s', tr @ order_balance_calls oc did st consumer si pd sv
                              @ [Call (StartOrder (pd_dataToken pd) totalCost
                                         (didZeroX oc did) si mp consumer)]))))"
  using assms
  by (simp add: order_try_def initialize_def getServiceByIndex_def bind_io_def ret_def query_def
        effect_def emit_def throw_def resolve_def Let_def order_balance_calls_def
        order_lookup_calls_def
        split: prod.splits sum.splits option.splits)




text \<open>
  Claim C3, as amended. Once the requested service is found in the resolved document, an
  order raises nothing: whatever is thrown inside the \<open>try\<close> block, a failure of the
  ledger included, is caught, logged and reported as null. In particular a ledger that
  throws in \<open>startOrder\<close> gives null after that call; an unavailable quote gives null
  with no ledger call; a balance not above the cost gives null with no payment call.
\<close>

theorem order_failures_reported_as_null:
  assumes "retrieveDDO oc s did = Inr d"
      and "if serviceIndex = - 1
           then forEach_assign (\<lambda>serv. stype serv = serviceType) (services d) None = Some found
                \<and> si = index found \<and> st = serviceType
           else forEach_assign (\<lambda>serv. index serv = Some serviceIndex) (services d) None = Some found
                \<and> si = Some serviceIndex \<and> st = stype found"
  shows "(\<exists>v \<sigma>'. order oc did serviceType consumer serviceIndex mp (s, tr) = (Inr v, \<sigma>'))
       \<and> (provider_initialize oc s did (case si of None \<Rightarrow> - 1 | Some i \<Rightarrow> i) st consumer = Inr None
            \<longrightarrow> order oc did serviceType consumer serviceIndex mp (s, tr) =
                 (Inr None, (s, tr @ [Call (RetrieveDDO did),
                      Call (ProviderInitialize did (case si of None \<Rightarrow> - 1 | Some i \<Rightarrow> i) st consumer)])))
       \<and> (provider_initialize oc s did (case si of None \<Rightarrow> - 1 | Some i \<Rightarrow> i) st consumer = Inr (Some res)
            \<and> JSON_parse oc res = Inr (Some pd)
            \<and> forEach_assign (\<lambda>serv. index serv = si) (services d) None = Some sv
            \<and> getPreviousValidOrders oc s (pd_dataToken pd) (numTokens pd) (didZeroX oc did) si
                 (timeout (main (attributes sv))) consumer = Inr prev
            \<and> \<not> truthy prev
            \<and> datatokens_balance oc s (pd_dataToken pd) consumer = Inr balance
            \<longrightarrow>
              (\<forall>e'. fromWei oc (String_js oc (numTokens pd)) = Inl e' \<longrightarrow>
                 order oc did serviceType consumer serviceIndex mp (s, tr) =
                   (Inr None, (s, tr @ order_balance_calls oc did st consumer si pd sv
                                    @ [Log Console_error])))
            \<and> (\<forall>totalCost. fromWei oc (String_js oc (numTokens pd)) = Inr totalCost \<longrightarrow>
                (balance \<le> totalCost \<longrightarrow>
                   order oc did serviceType consumer serviceIndex mp (s, tr) =
                     (Inr None, (s, tr @ order_balance_calls oc did st consumer si pd sv
                                      @ [Log Console_error])))
              \<and> (totalCost < balance
                 \<and> startOrder oc (pd_dataToken pd) totalCost (didZeroX oc did)
                       si mp consumer s = (Inl e, s')
                 \<longrightarrow>
                   order oc did serviceType consumer serviceIndex mp (s, tr) =
                     (Inr None, (s', tr @ order_balance_calls oc did st consumer si pd sv
                        @ [Call (StartOrder (pd_dataToken pd) totalCost
                                   (didZeroX oc did) si mp consumer), Log Console_error])))))"
proof -
  note loc = order_located [OF assms, of consumer mp tr]
  have never: "\<exists>v \<sigma>'. order oc did serviceType consumer serviceIndex mp (s, tr) = (Inr v, \<sigma>')"
    unfolding loc by (rule try_catch_never_raises)
  have quote: "provider_initialize oc s did (case si of None \<Rightarrow> - 1 | Some i \<Rightarrow> i) st consumer = Inr None
            \<longrightarrow> order oc did serviceType consumer serviceIndex mp (s, tr) =
                 (Inr None, (s, tr @ [Call (RetrieveDDO did),
                      Call (ProviderInitialize did (case si of None \<Rightarrow> - 1 | Some i \<Rightarrow> i) st consumer)]))"
    by (simp add: loc try_catch_def order_try_no_quote)
  have rest:
       "\<forall>e'. fromWei oc (String_js oc (numTokens pd)) = Inl e' \<longrightarrow>
                 order oc did serviceType consumer serviceIndex mp (s, tr) =
                   (Inr None, (s, tr @ order_balance_calls oc did st consumer si pd sv
                                    @ [Log Console_error]))"
       "\<forall>totalCost. fromWei oc (String_js oc (numTokens pd)) = Inr totalCost \<longrightarrow>
                (balance \<le> totalCost \<longrightarrow>
                   order oc did serviceType consumer serviceIndex mp (s, tr) =
                     (Inr None, (s, tr @ order_balance_calls oc did st consumer si pd sv
                                      @ [Log Console_error])))
              \<and> (totalCost < balance
                 \<and> startOrder oc (pd_dataToken pd) totalCost (didZeroX oc did)
                       si mp consumer s = (Inl e, s')
                 \<longrightarrow>
                   order oc did serviceType consumer serviceIndex mp (s, tr) =
                     (Inr None, (s', tr @ order_balance_calls oc did st consumer si pd sv
                        @ [Call (StartOrder (pd_dataToken pd) totalCost
                                   (didZeroX oc did) si mp consumer), Log Console_error])))"
    if "provider_initialize oc s did (case si of None \<Rightarrow> - 1 | Some i \<Rightarrow> i) st consumer = Inr (Some res)"
       "JSON_parse oc res = Inr (Some pd)"
       "forEach_assign (\<lambda>serv. index serv = si) (services d) None = Some sv"
       "getPreviousValidOrders oc s (pd_dataToken pd) (numTokens pd) (didZeroX oc did) si
                 (timeout (main (attributes sv))) consumer = Inr prev"
       "\<not> truthy prev"
       "datatokens_balance oc s (pd_dataToken pd) consumer = Inr balance"
  proof -
    note bal = order_try_at_balance [OF assms(1) that, of mp tr]
    show "\<forall>e'. fromWei oc (String_js oc (numTokens pd)) = Inl e' \<longrightarrow>
                 order oc did serviceType consumer serviceIndex mp (s, tr) =
                   (Inr None, (s, tr @ order_balance_calls oc did st consumer si pd sv
                                    @ [Log Console_error]))"
      by (simp add: loc try_catch_def bal bind_io_def emit_def ret_def)
    show "\<forall>totalCost. fromWei oc (String_js oc (numTokens pd)) = Inr totalCost \<longrightarrow>
                (balance \<le> totalCost \<longrightarrow>
                   order oc did serviceType consumer serviceIndex mp (s, tr) =
                     (Inr None, (s, tr @ order_balance_calls oc did st consumer si pd sv
                                      @ [Log Console_error])))
              \<and> (totalCost < balance
                 \<and> startOrder oc (pd_dataToken pd) totalCost (didZeroX oc did)
                       si mp consumer s = (Inl e, s')
                 \<longrightarrow>
                   order oc did serviceType consumer serviceIndex mp (s, tr) =
                     (Inr None, (s', tr @ order_balance_calls oc did st consumer si pd sv
                        @ [Call (StartOrder (pd_dataToken pd) totalCost
                                   (didZeroX oc did) si mp consumer), Log Console_error])))"
      by (simp add: loc try_catch_def bal bind_io_def emit_def ret_def)
  qed
  from never quote rest show ?thesis by blast
qed

theorem order_failures_reported_as_null_witness:
  "startOrder (demo_ocean\<lparr> startOrder := (\<lambda>token amount did si mp consumer s.
                  (Inl (CollaboratorError ''transaction reverted''), s)) \<rparr>)
      demo_token 100 (didZeroX demo_ocean demo_did) (Some 1) None ''0xconsumer'' 0
     = (Inl (CollaboratorError ''transaction reverted''), 0)
   \<and> fst (order (demo_ocean\<lparr> startOrder := (\<lambda>token amount did si mp consumer s.
                  (Inl (CollaboratorError ''transaction reverted''), s)) \<rparr>)
        demo_did ''access'' ''0xconsumer'' (- 1) None (0, [])) = Inr None
   \<and> fst (order (demo_ocean\<lparr> provider_initialize := (\<lambda>s did si st consumer. Inr None) \<rparr>)
        demo_did ''access'' ''0xconsumer'' (- 1) None (0, [])) = Inr None
   \<and> fst (order (demo_ocean\<lparr> datatokens_balance := (\<lambda>s token holder. Inr 99) \<rparr>)
        demo_did ''access'' ''0xconsumer'' (- 1) None (0, [])) = Inr None"
  using order_failures_reported_as_null
          [where oc = "demo_ocean\<lparr> startOrder := (\<lambda>token amount did si mp consumer s.
                  (Inl (CollaboratorError ''transaction reverted''), s)) \<rparr>"
             and s = 0 and did = demo_did and d = demo_ddo and serviceIndex = "- 1"
             and serviceType = "''access''" and found = "demo_access\<lparr>index := Some 1\<rparr>"
             and si = "Some 1" and st = "''access''" and consumer = "''0xconsumer''"
             and res = "''quote''" and pd = demo_quote and sv = "demo_access\<lparr>index := Some 1\<rparr>"
             and prev = None and balance = 101 and mp = None and tr = "[]"
             and e = "CollaboratorError ''transaction reverted''" and s' = 0]
        order_failures_reported_as_null
          [where oc = "demo_ocean\<lparr> provider_initialize := (\<lambda>s did si st consumer. Inr None) \<rparr>"
             and s = 0 and did = demo_did and d = demo_ddo and serviceIndex = "- 1"
             and serviceType = "''access''" and found = "demo_access\<lparr>index := Some 1\<rparr>"
             and si = "Some 1" and st = "''access''" and consumer = "''0xconsumer''"
             and mp = None and tr = "[]"]
        order_failures_reported_as_null
          [where oc = "demo_ocean\<lparr> datatokens_balance := (\<lambda>s token holder. Inr 99) \<rparr>"
             and s = 0 and did = demo_did and d = demo_ddo and serviceIndex = "- 1"
             and serviceType = "''access''" and found = "demo_access\<lparr>index := Some 1\<rparr>"
             and si = "Some 1" and st = "''access''" and consumer = "''0xconsumer''"
             and res = "''quote''" and pd = demo_quote and sv = "demo_access\<lparr>index := Some 1\<rparr>"
             and prev = None and balance = 99 and mp = None and tr = "[]"]
  by (simp add: demo_defs builder_defs truthy_def wei_defs)

text \<open>
  The claim as the specification states it fails: with a ledger whose \<open>startOrder\<close>
  throws, the order is not rejected; it returns null, after the payment call and the
  \<open>console.error\<close> of the handler.
\<close>

theorem order_ledger_failure_counterexample:
  "startOrder (demo_ocean\<lparr> startOrder := (\<lambda>token amount did si mp consumer s.
              (Inl (CollaboratorError ''transaction reverted''), s)) \<rparr>)
     demo_token 100 ''0x00000000000000000000000000000000000000a1'' (Some 1) None ''0xconsumer'' 0
   = (Inl (CollaboratorError ''transaction reverted''), 0)
   \<and> order (demo_ocean\<lparr> startOrder := (\<lambda>token amount did si mp consumer s.
              (Inl (CollaboratorError ''transaction reverted''), s)) \<rparr>)
     demo_did ''access'' ''0xconsumer'' (- 1) None (0, [])
   = (Inr None,
      (0, [Call (RetrieveDDO demo_did),
           Call (ProviderInitialize demo_did 1 ''access'' ''0xconsumer''),
           Call (RetrieveDDO demo_did),
           Call (GetPreviousValidOrders demo_token (JString ''100000000000000000000'')
                   ''0x00000000000000000000000000000000000000a1'' (Some 1) (Some 3600) ''0xconsumer''),
           Call (Balance demo_token ''0xconsumer''),
           Call (StartOrder demo_token 100 ''0x00000000000000000000000000000000000000a1''
                   (Some 1) None ''0xconsumer''),
           Log Console_error]))"
  by (simp add: order_def order_try_def initialize_def getServiceByType_def getServiceByIndex_def
        io_defs demo_defs builder_defs truthy_def wei_defs Let_def)

subsection \<open>The steps of a publication\<close>

lemma isAddress_falsy: "\<not> truthy v \<Longrightarrow> \<not> isAddress chk v"
  by (auto simp: truthy_def isAddress_def strip0x_def split: option.splits)

lemma log_if:
  "bind_io (if c then emit e else ret ()) f (s, tr) = f () (s, tr @ (if c then [e] else []))"
  by (simp add: bind_io_def emit_def ret_def)

lemma create_datatoken_created:
  assumes "metadatastore_getURI oc s = Inr uri"
      and "datatokens_create oc \<lparr> blob_t = 1, blob_url = uri \<rparr> (acc_id publisher) cap tname symbol s
             = (Inr (Some a), s1)"
      and "isAddress (checkAddressChecksum oc) (Some a)"
  shows "create_datatoken oc publisher cap tname symbol (s, tr) =
           (Inr (Inr a), (s1, tr @ datatoken_events publisher cap tname symbol uri))"
  using assms
  by (simp add: create_datatoken_def bind_io_def ret_def emit_def query_def effect_def
        datatoken_events_def Let_def)

lemma create_ddo_published:
  assumes "provider_encrypt oc s (DID_getId oc a) (files (main metadata)) publisher = Inr enc"
      and "d = new_ddo oc metadata publisher svcs a enc"
      and "signText oc s (getChecksum oc d) (acc_id publisher) (acc_password publisher) = Inr sig"
      and "metadata_publish oc (did_id d) (with_proof oc d publisher sig) (acc_id publisher) s
             = (Inr storeTx, s')"
  shows "create_ddo oc metadata publisher svcs a (s, tr) =
           (Inr (if storeTx then Some (with_proof oc d publisher sig) else None),
            (s', tr @ ddo_events oc metadata publisher a d
                   @ [Call (Publish (did_id d) (with_proof oc d publisher sig) (acc_id publisher)),
                      Log Logger_log, Progress DdoStored]))"
  using assms
  by (simp add: create_ddo_def addProof_def bind_io_def ret_def emit_def query_def effect_def
        ddo_events_def with_proof_def Let_def)

text \<open>
  What the promise of lines 78-192 does when it is run without a token address and every
  collaborator succeeds: the eight steps, once each and in order, and the document as the
  value.
\<close>

lemma create_executor_fresh_publish:
  assumes "\<not> truthy dtAddress"
      and "metadatastore_getURI oc s = Inr uri"
      and "datatokens_create oc \<lparr> blob_t = 1, blob_url = uri \<rparr> (acc_id publisher) cap tname symbol s
             = (Inr (Some a), s1)"
      and "isAddress (checkAddressChecksum oc) (Some a)"
      and "provider_encrypt oc s1 (DID_getId oc a) (files (main metadata)) publisher = Inr enc"
      and "d = new_ddo oc metadata publisher svcs a enc"
      and "signText oc s1 (getChecksum oc d) (acc_id publisher) (acc_password publisher) = Inr sig"
      and "metadata_publish oc (did_id d) (with_proof oc d publisher sig) (acc_id publisher) s1
             = (Inr storeTx, s2)"
  shows "create_executor oc metadata publisher svcs dtAddress cap tname symbol (s, tr) =
           (Inr (if storeTx then Some (with_proof oc d publisher sig) else None),
            (s2, tr @ (if length svcs = 0 then [Log Logger_log] else [])
                    @ datatoken_events publisher cap tname symbol uri
                    @ ddo_events oc metadata publisher a d
                    @ [Call (Publish (did_id d) (with_proof oc d publisher sig) (acc_id publisher)),
                       Log Logger_log, Progress DdoStored]))"
    and "progress_steps ((if length svcs = 0 then [Log Logger_log] else [])
                    @ datatoken_events publisher cap tname symbol uri
                    @ ddo_events oc metadata publisher a d
                    @ [Call (Publish (did_id d) (with_proof oc d publisher sig) (acc_id publisher)),
                       Log Logger_log, Progress DdoStored]) =
           [CreatingDataToken, DataTokenCreated, EncryptingFiles, FilesEncrypted,
            GeneratingProof, ProofGenerated, StoringDdo, DdoStored]"
proof -
  have tok: "(case dtAddress of
                None \<Rightarrow> create_datatoken oc publisher cap tname symbol
              | Some x \<Rightarrow> if x = [] then create_datatoken oc publisher cap tname symbol
                          else ret (Inr x)) = create_datatoken oc publisher cap tname symbol"
    using assms(1) by (auto simp: truthy_def split: option.splits)
  show "create_executor oc metadata publisher svcs dtAddress cap tname symbol (s, tr) =
           (Inr (if storeTx then Some (with_proof oc d publisher sig) else None),
            (s2, tr @ (if length svcs = 0 then [Log Logger_log] else [])
                    @ datatoken_events publisher cap tname symbol uri
                    @ ddo_events oc metadata publisher a d
                    @ [Call (Publish (did_id d) (with_proof oc d publisher sig) (acc_id publisher)),
                       Log Logger_log, Progress DdoStored]))"
    unfolding create_executor_def log_if tok
    by (simp add: bind_io_def ret_def
          create_datatoken_created [OF assms(2,3,4)]
          create_ddo_published [OF assms(5,6,7,8)])
  show "progress_steps ((if length svcs = 0 then [Log Logger_log] else [])
                    @ datatoken_events publisher cap tname symbol uri
                    @ ddo_events oc metadata publisher a d
                    @ [Call (Publish (did_id d) (with_proof oc d publisher sig) (acc_id publisher)),
                       Log Logger_log, Progress DdoStored]) =
           [CreatingDataToken, DataTokenCreated, EncryptingFiles, FilesEncrypted,
            GeneratingProof, ProofGenerated, StoringDdo, DdoStored]"
    by (simp add: datatoken_events_def ddo_events_def)
qed

text \<open>The same from a token address that the caller supplies and \<open>isAddress\<close> accepts:
  the guard of line 70 lets the call through and the token is not created.\<close>

lemma create_with_token_address:
  assumes "isAddress (checkAddressChecksum oc) (Some a)"
      and "provider_encrypt oc s (DID_getId oc a) (files (main metadata)) publisher = Inr enc"
      and "d = new_ddo oc metadata publisher svcs a enc"
      and "signText oc s (getChecksum oc d) (acc_id publisher) (acc_password publisher) = Inr sig"
      and "metadata_publish oc (did_id d) (with_proof oc d publisher sig) (acc_id publisher) s
             = (Inr storeTx, s')"
  shows "create oc metadata publisher svcs (Some a) cap tname symbol (s, tr) =
           (Some (Inr (if storeTx then Some (with_proof oc d publisher sig) else None)),
            (s', tr @ [Log Logger_log] @ (if length svcs = 0 then [Log Logger_log] else [])
                    @ ddo_events oc metadata publisher a d
                    @ [Call (Publish (did_id d) (with_proof oc d publisher sig) (acc_id publisher)),
                       Log Logger_log, Progress DdoStored]))"
proof -
  have ne: "a \<noteq> []"
    using assms(1) isAddress_falsy [of "Some a" "checkAddressChecksum oc"]
    by (auto simp: truthy_def)
  show ?thesis
    unfolding create_def create_executor_def log_if
    by (simp add: assms(1) ne bind_io_def ret_def
          create_ddo_published [OF assms(2,3,4,5)])
qed

text \<open>
  Claim C2. The claim is right about the promise (lemma \<open>create_executor_fresh_publish\<close>:
  run without a token address, it creates the token and gives the eight steps), and the
  method does not get there: the guard of line 70 tests \<open>isAddress\<close> on the absent
  address too, so a call without a token address logs the error and returns null. No
  promise is made, no step is emitted and the ledger is not asked for a token.
\<close>

theorem create_without_token_address:
  "create oc metadata publisher svcs None cap tname symbol \<sigma> =
     (None, (fst \<sigma>, snd \<sigma> @ [Log Logger_error]))
   \<and> create oc metadata publisher svcs (Some []) cap tname symbol \<sigma> =
     (None, (fst \<sigma>, snd \<sigma> @ [Log Logger_error]))"
  by (simp add: create_def isAddress_def strip0x_def)

text \<open>
  Claim C7. When the publish call of the metadata index reports failure (it returns
  false) after the token creation has succeeded, the value of the workflow is null, the
  only events after the publish call are the log line and the last progress step, and the
  state of the outside world is the one the publish call left: no further call is made,
  the token stays. This holds for the promise that has created the token itself, and for
  the method called with the address of a token created before.
\<close>

theorem create_publish_failure_no_compensation:
  assumes "provider_encrypt oc s1 (DID_getId oc a) (files (main metadata)) publisher = Inr enc"
      and "d = new_ddo oc metadata publisher svcs a enc"
      and "signText oc s1 (getChecksum oc d) (acc_id publisher) (acc_password publisher) = Inr sig"
      and "metadata_publish oc (did_id d) (with_proof oc d publisher sig) (acc_id publisher) s1
             = (Inr False, s2)"
      and "isAddress (checkAddressChecksum oc) (Some a)"
  shows "(\<not> truthy dtAddress
          \<and> metadatastore_getURI oc s = Inr uri
          \<and> datatokens_create oc \<lparr> blob_t = 1, blob_url = uri \<rparr> (acc_id publisher) cap tname symbol s
               = (Inr (Some a), s1)
          \<longrightarrow> create_executor oc metadata publisher svcs dtAddress cap tname symbol (s, tr) =
                (Inr None,
                 (s2, tr @ (if length svcs = 0 then [Log Logger_log] else [])
                    @ datatoken_events publisher cap tname symbol uri
                    @ ddo_events oc metadata publisher a d
                    @ [Call (Publish (did_id d) (with_proof oc d publisher sig) (acc_id publisher)),
                       Log Logger_log, Progress DdoStored])))
       \<and> create oc metadata publisher svcs (Some a) cap tname symbol (s1, tr) =
           (Some (Inr None),
            (s2, tr @ [Log Logger_log] @ (if length svcs = 0 then [Log Logger_log] else [])
                    @ ddo_events oc metadata publisher a d
                    @ [Call (Publish (did_id d) (with_proof oc d publisher sig) (acc_id publisher)),
                       Log Logger_log, Progress DdoStored]))"
  using create_executor_fresh_publish(1) [OF _ _ _ assms(5) assms(1,2,3,4), of dtAddress s uri cap tname symbol tr]
        create_with_token_address [OF assms(5) assms(1,2,3,4), of cap tname symbol tr]
  by simp


theorem create_publish_failure_no_compensation_witness:
  "isAddress (checkAddressChecksum demo_ocean) (Some demo_token)
   \<and> fst (create_executor (demo_ocean\<lparr> metadata_publish := (\<lambda>did d owner s. (Inr False, Suc s)) \<rparr>)
           demo_metadata demo_publisher [demo_access] None None None None (0, [])) = Inr None
   \<and> fst (snd (create_executor (demo_ocean\<lparr> metadata_publish := (\<lambda>did d owner s. (Inr False, Suc s)) \<rparr>)
           demo_metadata demo_publisher [demo_access] None None None None (0, []))) = 2
   \<and> fst (create (demo_ocean\<lparr> metadata_publish := (\<lambda>did d owner s. (Inr False, Suc s)) \<rparr>)
           demo_metadata demo_publisher [demo_access] (Some demo_token) None None None (1, []))
       = Some (Inr None)
   \<and> fst (snd (create (demo_ocean\<lparr> metadata_publish := (\<lambda>did d owner s. (Inr False, Suc s)) \<rparr>)
           demo_metadata demo_publisher [demo_access] (Some demo_token) None None None (1, []))) = 2"
  using create_publish_failure_no_compensation
          [where oc = "demo_ocean\<lparr> metadata_publish := (\<lambda>did d owner s. (Inr False, Suc s)) \<rparr>"
             and s = 0 and uri = "''https://aquarius''" and a = demo_token and ?s1.0 = 1 and ?s2.0 = 2 and enc = "Some ''encrypted''"
             and metadata = demo_metadata and publisher = demo_publisher and svcs = "[demo_access]"
             and d = "new_ddo (demo_ocean\<lparr> metadata_publish := (\<lambda>did d owner s. (Inr False, Suc s)) \<rparr>)
                        demo_metadata demo_publisher [demo_access] demo_token (Some ''encrypted'')"
             and sig = "''0xsigned''" and dtAddress = None
             and cap = None and tname = None and symbol = None and tr = "[]"]
  by (simp add: demo_ocean_def demo_token_def demo_publisher_def isAddress_def strip0x_def truthy_def)

subsection \<open>Reusing a previous order\<close>

lemma order_try_reuse:
  assumes "retrieveDDO oc s did = Inr d"
      and "provider_initialize oc s did (case si of None \<Rightarrow> - 1 | Some i \<Rightarrow> i) st consumer = Inr (Some res)"
      and "JSON_parse oc res = Inr (Some pd)"
      and "forEach_assign (\<lambda>serv. index serv = si) (services d) None = Some sv"
      and "getPreviousValidOrders oc s (pd_dataToken pd) (numTokens pd) (didZeroX oc did) si
             (timeout (main (attributes sv))) consumer = Inr prev"
      and "truthy prev"
  shows "order_try oc did st consumer si mp (s, tr @ [Call (RetrieveDDO did)]) =
           (Inr prev, (s, tr @ order_lookup_calls oc did st consumer si pd sv))"
  using assms
  by (simp add: order_try_def initialize_def getServiceByIndex_def bind_io_def ret_def query_def
        resolve_def Let_def order_lookup_calls_def)

lemma last_filter_narrow:
  assumes "filter P xs \<noteq> []"
      and "Q (last (filter P xs))"
      and "\<forall>x\<in>set xs. Q x \<longrightarrow> P x"
  shows "filter Q xs \<noteq> [] \<and> last (filter Q xs) = last (filter P xs)"
  using assms
proof (induction xs rule: rev_induct)
  case Nil
  then show ?case by simp
next
  case (snoc x xs)
  show ?case
  proof (cases "P x")
    case True
    with snoc.prems show ?thesis by simp
  next
    case False
    with snoc.prems have "\<not> Q x" by auto
    with False snoc show ?thesis by simp
  qed
qed

text \<open>An order on the ledger of the specification, from the lookup of the previous
  order on.\<close>

lemma order_on_ledger:
  assumes "retrieveDDO base w did = Inr d"
      and "if serviceIndex = - 1
           then forEach_assign (\<lambda>serv. stype serv = serviceType) (services d) None = Some found
                \<and> si = index found \<and> st = serviceType
           else forEach_assign (\<lambda>serv. index serv = Some serviceIndex) (services d) None = Some found
                \<and> si = Some serviceIndex \<and> st = stype found"
      and "provider_initialize base w did (case si of None \<Rightarrow> - 1 | Some i \<Rightarrow> i) st consumer = Inr (Some res)"
      and "JSON_parse base res = Inr (Some pd)"
      and "forEach_assign (\<lambda>serv. index serv = si) (services d) None = Some sv"
  shows "order (with_ledger base) did serviceType consumer serviceIndex mp ((l, w), tr) =
          (let prev = ledger_getPreviousValidOrder l (pd_dataToken pd) (numTokens pd)
                        (didZeroX base did) si (timeout (main (attributes sv))) consumer in
           if truthy prev
           then (Inr prev, ((l, w), tr @ order_lookup_calls (with_ledger base) did st consumer si pd sv))
           else (case fromWei base (String_js base (numTokens pd)) of
              Inl e \<Rightarrow>
                (Inr None, ((l, w), tr @ order_balance_calls (with_ledger base) did st consumer si pd sv
                                      @ [Log Console_error]))
            | Inr totalCost \<Rightarrow>
                if balances l (pd_dataToken pd, consumer) \<le> totalCost
                then (Inr None, ((l, w), tr @ order_balance_calls (with_ledger base) did st consumer si pd sv
                                      @ [Log Console_error]))
                else (Inr (Some (tx_hash (length (orders l)))),
                      ((snd (ledger_startOrder (pd_dataToken pd) totalCost
                               (didZeroX base did) si mp consumer l), w),
                       tr @ order_balance_calls (with_ledger base) did st consumer si pd sv
                          @ [Call (StartOrder (pd_dataToken pd) totalCost
                                     (didZeroX base did) si mp consumer)]))))"
proof -
  let ?oc = "with_ledger base"
  let ?prev = "ledger_getPreviousValidOrder l (pd_dataToken pd) (numTokens pd)
                        (didZeroX base did) si (timeout (main (attributes sv))) consumer"
  have doc: "retrieveDDO ?oc (l, w) did = Inr d"
    using assms(1) by (simp add: with_ledger_def)
  have quote: "provider_initialize ?oc (l, w) did (case si of None \<Rightarrow> - 1 | Some i \<Rightarrow> i) st consumer
                 = Inr (Some res)"
    using assms(3) by (simp add: with_ledger_def)
  have parse: "JSON_parse ?oc res = Inr (Some pd)"
    using assms(4) by (simp add: with_ledger_def)
  have prev: "getPreviousValidOrders ?oc (l, w) (pd_dataToken pd) (numTokens pd) (didZeroX ?oc did) si
             (timeout (main (attributes sv))) consumer = Inr ?prev"
    by (simp add: with_ledger_def)
  have bal: "datatokens_balance ?oc (l, w) (pd_dataToken pd) consumer
               = Inr (balances l (pd_dataToken pd, consumer))"
    by (simp add: with_ledger_def)
  have start: "startOrder ?oc (pd_dataToken pd) c (didZeroX base did) si mp consumer (l, w)
      = (Inr (Some \<lparr> transactionHash = tx_hash (length (orders l)) \<rparr>),
         (snd (ledger_startOrder (pd_dataToken pd) c
                          (didZeroX base did) si mp consumer l), w))" for c
    by (simp add: with_ledger_def ledger_startOrder_def)
  have conv: "fromWei ?oc (String_js ?oc (numTokens pd)) = fromWei base (String_js base (numTokens pd))"
    by (cases "numTokens pd") (simp_all add: with_ledger_def String_js_def)
  have zx: "didZeroX ?oc did = didZeroX base did"
    by (simp add: with_ledger_def)
  note loc = order_located [OF doc assms(2), of consumer mp tr]
  show ?thesis
  proof (cases "truthy ?prev")
    case True
    from order_try_reuse [OF doc quote parse assms(5) prev True, of mp tr] True
    show ?thesis by (simp add: loc try_catch_def Let_def)
  next
    case False
    from order_try_at_balance [OF doc quote parse assms(5) prev False bal, of mp tr] False
    show ?thesis
      by (simp add: loc try_catch_def Let_def start zx conv bind_io_def emit_def ret_def
            split: sum.splits)
  qed
qed


lemma previous_order_Some:
  "ledger_getPreviousValidOrder l token amount did si tmo consumer = Some h \<longleftrightarrow>
     filter (reusable l did si consumer tmo) (orders l) \<noteq> []
     \<and> o_transactionHash (last (filter (reusable l did si consumer tmo) (orders l))) = h"
  by (auto simp: ledger_getPreviousValidOrder_def split: list.splits)

text \<open>
  Claim C4, on the ledger of the specification. Two orders for the same (DID, service,
  consumer), the document and the quote being the same for both: when the first has
  returned the transaction identifier \<open>h\<close> (it paid, or it reused a receipt itself), and
  the second is made at a time \<open>t\<close>, not earlier, at which the receipt with that
  identifier is still within its timeout \<open>T\<close>, the second returns \<open>h\<close> too; its
  calls are the lookups only, no \<open>startOrder\<close> is among them, and the ledger is left
  as it was.
\<close>

theorem order_twice_reuses_receipt:
  assumes doc: "retrieveDDO base w did = Inr d"
      and first: "if serviceIndex = - 1
           then forEach_assign (\<lambda>serv. stype serv = serviceType) (services d) None = Some found
                \<and> si = index found \<and> st = serviceType
           else forEach_assign (\<lambda>serv. index serv = Some serviceIndex) (services d) None = Some found
                \<and> si = Some serviceIndex \<and> st = stype found"
      and quote: "provider_initialize base w did (case si of None \<Rightarrow> - 1 | Some i \<Rightarrow> i) st consumer = Inr (Some res)"
      and parse: "JSON_parse base res = Inr (Some pd)"
      and second: "forEach_assign (\<lambda>serv. index serv = si) (services d) None = Some sv"
      and tmo: "timeout (main (attributes sv)) = Some T"
      and call1: "order (with_ledger base) did serviceType consumer serviceIndex mp ((l, w), tr)
                    = (Inr (Some h), ((l1, w1), tr1))"
      and later: "now l1 \<le> t"
      and window: "\<forall>r\<in>set (orders l1). o_transactionHash r = h \<longrightarrow> t < o_timestamp r + T"
  shows "order (with_ledger base) did serviceType consumer serviceIndex mp ((l1\<lparr>now := t\<rparr>, w1), tr1) =
           (Inr (Some h),
            ((l1\<lparr>now := t\<rparr>, w1), tr1 @ order_lookup_calls (with_ledger base) did st consumer si pd sv))
       \<and> (\<forall>tk a z i m c. Call (StartOrder tk a z i m c)
              \<notin> set (order_lookup_calls (with_ledger base) did st consumer si pd sv))"
proof -
  let ?zx = "didZeroX base did"
  let ?P = "reusable l ?zx si consumer (Some T)"
  let ?Q = "reusable (l1\<lparr>now := t\<rparr>) ?zx si consumer (Some T)"
  let ?prev = "ledger_getPreviousValidOrder l (pd_dataToken pd) (numTokens pd) ?zx si (Some T) consumer"
  let ?R = "\<lparr> o_transactionHash = tx_hash (length (orders l)), o_did = ?zx,
              o_serviceIndex = si, o_consumer = consumer, o_timestamp = now l \<rparr>"
  note o1 = order_on_ledger [OF doc first quote parse second, where mp = mp and l = l and tr = tr, unfolded tmo]
  note o2 = order_on_ledger [OF doc first quote parse second, where mp = mp and l = "l1\<lparr>now := t\<rparr>" and tr = tr1, unfolded tmo]
  from call1 have split:
    "(truthy ?prev \<and> ?prev = Some h \<and> l1 = l \<and> w1 = w)
     \<or> (h = tx_hash (length (orders l)) \<and> w1 = w
        \<and> (\<exists>c. l1 = snd (ledger_startOrder (pd_dataToken pd) c ?zx si mp consumer l)))"
    unfolding o1 by (auto simp: Let_def split: if_splits sum.splits)
  have key: "w1 = w \<and> h \<noteq> []
     \<and> ledger_getPreviousValidOrder (l1\<lparr>now := t\<rparr>) (pd_dataToken pd) (numTokens pd) ?zx si (Some T) consumer
         = Some h"
    using split
  proof (elim disjE conjE)
    assume tp: "truthy ?prev" and p: "?prev = Some h" and l1: "l1 = l" and w1: "w1 = w"
    from tp p have ne: "h \<noteq> []" by (simp add: truthy_def)
    from p have f: "filter ?P (orders l) \<noteq> []"
      and hh: "o_transactionHash (last (filter ?P (orders l))) = h"
      by (simp_all add: previous_order_Some)
    from f have "last (filter ?P (orders l)) \<in> set (filter ?P (orders l))"
      by (rule last_in_set)
    then have mem: "last (filter ?P (orders l)) \<in> set (orders l)"
      and pl: "?P (last (filter ?P (orders l)))" by simp_all
    from window mem hh l1 have "t < o_timestamp (last (filter ?P (orders l))) + T" by blast
    with pl have q: "?Q (last (filter ?P (orders l)))" by (simp add: reusable_def)
    have imp: "\<forall>x\<in>set (orders l). ?Q x \<longrightarrow> ?P x"
      using later l1 by (auto simp: reusable_def)
    from last_filter_narrow [OF f q imp] hh
    have "ledger_getPreviousValidOrder (l1\<lparr>now := t\<rparr>) (pd_dataToken pd) (numTokens pd) ?zx si (Some T) consumer
         = Some h"
      by (simp add: previous_order_Some l1)
    with ne w1 show ?thesis by simp
  next
    assume h: "h = tx_hash (length (orders l))" and w1: "w1 = w"
      and "\<exists>c. l1 = snd (ledger_startOrder (pd_dataToken pd) c ?zx si mp consumer l)"
    then obtain c where l1: "l1 = snd (ledger_startOrder (pd_dataToken pd) c ?zx si mp consumer l)"
      by blast
    from l1 have ords: "orders l1 = orders l @ [?R]"
      by (simp add: ledger_startOrder_def)
    with window h have "t < now l + T" by simp
    then have q: "?Q ?R" by (simp add: reusable_def)
    have ne: "h \<noteq> []" by (simp add: h tx_hash_def)
    from q ords h
    have "ledger_getPreviousValidOrder (l1\<lparr>now := t\<rparr>) (pd_dataToken pd) (numTokens pd) ?zx si (Some T) consumer
         = Some h"
      by (simp add: previous_order_Some)
    with ne w1 show ?thesis by simp
  qed
  have calls: "\<forall>tk a z i m c. Call (StartOrder tk a z i m c)
              \<notin> set (order_lookup_calls (with_ledger base) did st consumer si pd sv)"
    by (simp add: order_lookup_calls_def)
  from key have "order (with_ledger base) did serviceType consumer serviceIndex mp ((l1\<lparr>now := t\<rparr>, w1), tr1) =
           (Inr (Some h),
            ((l1\<lparr>now := t\<rparr>, w1), tr1 @ order_lookup_calls (with_ledger base) did st consumer si pd sv))"
    by (simp add: o2 truthy_def Let_def)
  with calls show ?thesis by blast
qed


theorem order_twice_reuses_receipt_witness:
  "order (with_ledger demo_ocean) demo_did ''access'' ''0xconsumer'' 1 None ((demo_ledger, 0), [])
     = (Inr (Some ''0x0''), ((demo_ledger_paid, 0), demo_first_order))
   \<and> now demo_ledger_paid \<le> 4599
   \<and> map (\<lambda>r. (o_transactionHash r, o_timestamp r)) (orders demo_ledger_paid) = [(''0x0'', 1000)]
   \<and> order (with_ledger demo_ocean) demo_did ''access'' ''0xconsumer'' 1 None
        ((demo_ledger_paid\<lparr>now := 4599\<rparr>, 0), demo_first_order)
     = (Inr (Some ''0x0''),
        ((demo_ledger_paid\<lparr>now := 4599\<rparr>, 0),
         demo_first_order @ order_lookup_calls (with_ledger demo_ocean) demo_did ''access''
                              ''0xconsumer'' (Some 1) demo_quote (demo_access\<lparr>index := Some 1\<rparr>)))"
proof -
  have doc: "retrieveDDO demo_ocean (0::nat) demo_did = Inr demo_ddo"
    by (simp add: demo_ocean_def)
  have first: "if (1::int) = - 1
           then forEach_assign (\<lambda>serv. stype serv = ''access'') (services demo_ddo) None
                  = Some (demo_access\<lparr>index := Some 1\<rparr>)
                \<and> Some 1 = index (demo_access\<lparr>index := Some 1\<rparr>) \<and> ''access'' = ''access''
           else forEach_assign (\<lambda>serv. index serv = Some 1) (services demo_ddo) None
                  = Some (demo_access\<lparr>index := Some 1\<rparr>)
                \<and> Some (1::int) = Some 1 \<and> ''access'' = stype (demo_access\<lparr>index := Some 1\<rparr>)"
    by (simp add: demo_defs builder_defs)
  have quote: "provider_initialize demo_ocean (0::nat) demo_did (case Some 1 of None \<Rightarrow> - 1 | Some i \<Rightarrow> i)
                 ''access'' ''0xconsumer'' = Inr (Some ''quote'')"
    by (simp add: demo_ocean_def)
  have parse: "JSON_parse demo_ocean ''quote'' = Inr (Some demo_quote)"
    by (simp add: demo_ocean_def)
  have second: "forEach_assign (\<lambda>serv. index serv = Some 1) (services demo_ddo) None
                  = Some (demo_access\<lparr>index := Some 1\<rparr>)"
    by (simp add: demo_defs builder_defs)
  have tmo: "timeout (main (attributes (demo_access\<lparr>index := Some 1\<rparr>))) = Some 3600"
    by (simp add: demo_access_def)
  have call1: "order (with_ledger demo_ocean) demo_did ''access'' ''0xconsumer'' 1 None ((demo_ledger, 0), [])
     = (Inr (Some ''0x0''), ((demo_ledger_paid, 0), demo_first_order))"
    unfolding order_on_ledger [OF doc first quote parse second]
    by (simp add: Let_def tmo
          ledger_getPreviousValidOrder_def demo_ledger_def truthy_def demo_quote_def wei_defs
          tx_hash_def demo_ledger_paid_def demo_first_order_def demo_token_def demo_ocean_def
          demo_did_def)
  have later: "now demo_ledger_paid \<le> 4599"
    by (simp add: demo_ledger_paid_def ledger_startOrder_def demo_ledger_def)
  have ords: "map (\<lambda>r. (o_transactionHash r, o_timestamp r)) (orders demo_ledger_paid) = [(''0x0'', 1000)]"
    by (simp add: demo_ledger_paid_def ledger_startOrder_def demo_ledger_def tx_hash_def)
  have window: "\<forall>r\<in>set (orders demo_ledger_paid). o_transactionHash r = ''0x0'' \<longrightarrow> 4599 < o_timestamp r + 3600"
    by (simp add: demo_ledger_paid_def ledger_startOrder_def demo_ledger_def)
  from order_twice_reuses_receipt [OF doc first quote parse second tmo call1 later window]
       call1 later ords
  show ?thesis by simp
qed

end
